theory Spec2Isabelle
  imports Complex_Main
begin

section \<open>The projection engine of the mortgage calculator\<close>

text \<open>
  The engine is the set of free numeric functions of \<^verbatim>\<open>src/app/api/prices/route.ts\<close>
  (the part after the route handlers, imported by the page as \<^verbatim>\<open>@/lib/calculations\<close>).

  Numbers. The specification's data model describes every monetary amount and every rate
  as a real, and the first embedding below follows it: a TypeScript \<^verbatim>\<open>number\<close> that holds
  an amount or a rate is a \<^typ>\<open>real\<close>, and the arithmetic is exact. It carries the
  statements that equate a result with the expression the code evaluates, and the worked
  scenario. The code itself runs on IEEE 754 doubles; the statements whose truth depends
  on rounding, underflow or overflow are made on a second embedding, given after the
  first, whose arithmetic is a parameter and has the doubles as an instance. In both, a
  \<^verbatim>\<open>number\<close> that counts months or years (a loop bound, a loop counter, the month index
  returned by the search, the exponent of \<^verbatim>\<open>Math.pow\<close>) is an \<^typ>\<open>int\<close>; a negative count
  is allowed and makes a loop run zero times, as in the source.

  Division. No function of the engine raises: a quotient by zero is an infinity or NaN in
  the source, and \<open>0\<close> in HOL's reals. Such a quotient can arise in three places only: the
  payment (a term of \<open>0\<close> years, or a factor \<open>(1 + m)^n\<close> equal to \<open>1\<close>), the recommended
  savings (a multiplier of \<open>0\<close>), and \<^verbatim>\<open>Math.pow\<close> of the base \<open>0\<close> with a negative exponent;
  every other divisor is the constant \<open>100\<close> or \<open>12\<close>. The statements on the reals either
  are about inputs where it does not arise, or equate two occurrences of the same quotient.
\<close>

subsection \<open>Library functions of the host language\<close>

text \<open>\<^verbatim>\<open>Math.pow(base, exponent)\<close> for an integer exponent.\<close>

definition Math_pow :: "real \<Rightarrow> int \<Rightarrow> real" where
  "Math_pow base exponent = base powi exponent"

text \<open>\<^verbatim>\<open>Math.round(x)\<close>: the nearest integer, a tie going up (\<open>floor (x + 0.5)\<close>).\<close>

definition Math_round :: "real \<Rightarrow> real" where
  "Math_round x = real_of_int \<lfloor>x + 1 / 2\<rfloor>"

subsection \<open>Data model\<close>

text \<open>
  A field of a HOL record is a global function, so the fields carry a prefix that keeps
  them apart from the local variables of the same name in the functions below:
  \<open>in_\<close> for \<^verbatim>\<open>CalculatorInputs\<close>, \<open>pt_\<close> for \<^verbatim>\<open>MonthlyProjection\<close> and
  \<open>res_\<close> for \<^verbatim>\<open>CalculationResults\<close>. The type parameter of the first two is the type of
  numbers: \<^typ>\<open>real\<close> in the first embedding.
\<close>

record 'n CalculatorInputs =
  in_apartmentPrice :: 'n
  in_priceGrowthRate :: 'n
  in_salary :: 'n
  in_salaryGrowthRate :: 'n
  in_monthlySavings :: 'n
  in_initialSavings :: 'n
  in_savingsInterestRate :: 'n
  in_mortgageRate :: 'n
  in_downPaymentPercent :: 'n
  in_mortgageTerm :: int

record 'n MonthlyProjection =
  pt_month :: int
  pt_apartmentPrice :: 'n
  pt_totalSavings :: 'n
  pt_monthlySaving :: 'n
  pt_downPaymentTarget :: 'n
  pt_surplus :: 'n

record CalculationResults =
  res_futureApartmentPrice :: real
  res_requiredDownPayment :: real
  res_monthsToDownPayment :: int
  res_monthsToFullPrice :: int
  res_monthlyMortgagePayment :: real
  res_totalMortgagePayment :: real
  res_mortgageOverpayment :: real
  res_recommendedMonthlySavings :: real
  res_projectedSavings :: real
  res_monthlyProjection :: "real MonthlyProjection list"

subsection \<open>Future price\<close>

definition calculateFuturePrice :: "real \<Rightarrow> real \<Rightarrow> int \<Rightarrow> real" where
  "calculateFuturePrice currentPrice annualGrowthRate months =
     (let monthlyRate = annualGrowthRate / 100 / 12
      in currentPrice * Math_pow (1 + monthlyRate) months)"

subsection \<open>Savings with salary growth and interest\<close>

text \<open>The \<^verbatim>\<open>for (let i = 0; i < months; i++)\<close> loop, from the state at counter \<open>i\<close>.\<close>

function savingsLoop :: "real \<Rightarrow> real \<Rightarrow> int \<Rightarrow> int \<Rightarrow> real \<Rightarrow> real \<Rightarrow> real" where
  "savingsLoop monthlyGrowthRate monthlyInterestRate months i totalSavings currentSaving =
     (if i < months
      then savingsLoop monthlyGrowthRate monthlyInterestRate months (i + 1)
             (totalSavings * (1 + monthlyInterestRate) + currentSaving)
             (currentSaving * (1 + monthlyGrowthRate))
      else totalSavings)"
  by pat_completeness auto
termination
  by (relation "measure (\<lambda>(g, r, months, i, t, c). nat (months - i))") auto

declare savingsLoop.simps [simp del]

definition calculateSavingsWithGrowth :: "real \<Rightarrow> real \<Rightarrow> int \<Rightarrow> real \<Rightarrow> real \<Rightarrow> real" where
  "calculateSavingsWithGrowth initialMonthlySaving annualSalaryGrowthRate months
       initialSavings annualInterestRate =
     (let monthlyGrowthRate = annualSalaryGrowthRate / 100 / 12;
          monthlyInterestRate = annualInterestRate / 100 / 12
      in savingsLoop monthlyGrowthRate monthlyInterestRate months 0
           initialSavings initialMonthlySaving)"

subsection \<open>Months to a moving target\<close>

text \<open>
  The \<^verbatim>\<open>while (months < maxMonths)\<close> loop with \<^verbatim>\<open>maxMonths = 600\<close>, from the state at
  counter \<open>months\<close>; leaving the loop returns the sentinel \<open>-1\<close>.
\<close>

function targetLoop ::
  "real \<Rightarrow> real \<Rightarrow> real \<Rightarrow> real \<Rightarrow> real \<Rightarrow> real \<Rightarrow> real \<Rightarrow> int \<Rightarrow> int" where
  "targetLoop monthlyPriceGrowth monthlySalaryGrowth monthlyInterestRate targetPercent
       totalSavings currentSaving currentApartmentPrice months =
     (if months < 600
      then let totalSavings' = totalSavings * (1 + monthlyInterestRate) + currentSaving;
               currentSaving' = currentSaving * (1 + monthlySalaryGrowth);
               currentApartmentPrice' = currentApartmentPrice * (1 + monthlyPriceGrowth);
               months' = months + 1;
               target = currentApartmentPrice' * (targetPercent / 100)
           in if totalSavings' \<ge> target
              then months'
              else targetLoop monthlyPriceGrowth monthlySalaryGrowth monthlyInterestRate
                     targetPercent totalSavings' currentSaving' currentApartmentPrice' months'
      else - 1)"
  by pat_completeness auto
termination
  by (relation "measure (\<lambda>(pg, sg, ir, tp, t, c, p, months). nat (600 - months))") auto

declare targetLoop.simps [simp del]

definition calculateMonthsToTarget ::
  "real \<Rightarrow> real \<Rightarrow> real \<Rightarrow> real \<Rightarrow> real \<Rightarrow> real \<Rightarrow> real \<Rightarrow> real \<Rightarrow> int" where
  "calculateMonthsToTarget targetAmount currentPrice priceGrowthRate monthlySavings
       salaryGrowthRate targetPercent initialSavings savingsInterestRate =
     (let monthlyPriceGrowth = priceGrowthRate / 100 / 12;
          monthlySalaryGrowth = salaryGrowthRate / 100 / 12;
          monthlyInterestRate = savingsInterestRate / 100 / 12;
          initialTarget = currentPrice * (targetPercent / 100)
      in if initialSavings \<ge> initialTarget
         then 0
         else targetLoop monthlyPriceGrowth monthlySalaryGrowth monthlyInterestRate
                targetPercent initialSavings monthlySavings currentPrice 0)"

subsection \<open>Annuity payment\<close>

text \<open>The parameter \<^verbatim>\<open>principal\<close> is \<open>loanPrincipal\<close> here (\<open>principal\<close> is a constant of HOL).\<close>

definition calculateMortgagePayment :: "real \<Rightarrow> real \<Rightarrow> int \<Rightarrow> real" where
  "calculateMortgagePayment loanPrincipal annualRate termYears =
     (let monthlyRate = annualRate / 100 / 12;
          numPayments = termYears * 12
      in if monthlyRate = 0
         then loanPrincipal / real_of_int numPayments
         else loanPrincipal * (monthlyRate * Math_pow (1 + monthlyRate) numPayments)
                / (Math_pow (1 + monthlyRate) numPayments - 1))"

subsection \<open>Recommended savings\<close>

text \<open>The \<^verbatim>\<open>for (let i = 0; i < targetMonths; i++)\<close> loop that sums the growth factors.\<close>

function multiplierLoop :: "real \<Rightarrow> int \<Rightarrow> int \<Rightarrow> real \<Rightarrow> real \<Rightarrow> real" where
  "multiplierLoop monthlySalaryGrowth targetMonths i multiplier growthFactor =
     (if i < targetMonths
      then multiplierLoop monthlySalaryGrowth targetMonths (i + 1)
             (multiplier + growthFactor) (growthFactor * (1 + monthlySalaryGrowth))
      else multiplier)"
  by pat_completeness auto
termination
  by (relation "measure (\<lambda>(g, targetMonths, i, m, f). nat (targetMonths - i))") auto

declare multiplierLoop.simps [simp del]

definition calculateRecommendedSavings ::
  "real \<Rightarrow> real \<Rightarrow> real \<Rightarrow> real \<Rightarrow> int \<Rightarrow> real \<Rightarrow> real" where
  "calculateRecommendedSavings targetAmount currentPrice priceGrowthRate salaryGrowthRate
       targetMonths downPaymentPercent =
     (let futurePrice = calculateFuturePrice currentPrice priceGrowthRate targetMonths;
          targetDownPayment = futurePrice * (downPaymentPercent / 100);
          monthlySalaryGrowth = salaryGrowthRate / 100 / 12;
          multiplier = multiplierLoop monthlySalaryGrowth targetMonths 0 0 1
      in targetDownPayment / multiplier)"

subsection \<open>Monthly projection\<close>

text \<open>
  The \<^verbatim>\<open>for (let month = 0; month <= maxMonths; month++)\<close> loop; \<^verbatim>\<open>projection.push\<close>
  appends the point at the end of the list.
\<close>

function projectionLoop ::
  "real CalculatorInputs \<Rightarrow> int \<Rightarrow> real \<Rightarrow> real \<Rightarrow> real \<Rightarrow> int \<Rightarrow> real \<Rightarrow> real \<Rightarrow> real
     \<Rightarrow> real MonthlyProjection list \<Rightarrow> real MonthlyProjection list" where
  "projectionLoop inputs maxMonths monthlyPriceGrowth monthlySalaryGrowth monthlyInterestRate
       month totalSavings currentSaving currentApartmentPrice projection =
     (if month \<le> maxMonths
      then let downPaymentTarget =
                 currentApartmentPrice * (in_downPaymentPercent inputs / 100);
               projection' = projection @
                 [\<lparr>pt_month = month,
                   pt_apartmentPrice = Math_round currentApartmentPrice,
                   pt_totalSavings = Math_round totalSavings,
                   pt_monthlySaving = Math_round currentSaving,
                   pt_downPaymentTarget = Math_round downPaymentTarget,
                   pt_surplus = Math_round (totalSavings - downPaymentTarget)\<rparr>]
           in projectionLoop inputs maxMonths monthlyPriceGrowth monthlySalaryGrowth
                monthlyInterestRate (month + 1)
                (totalSavings * (1 + monthlyInterestRate) + currentSaving)
                (currentSaving * (1 + monthlySalaryGrowth))
                (currentApartmentPrice * (1 + monthlyPriceGrowth))
                projection'
      else projection)"
  by pat_completeness auto
termination
  by (relation
       "measure (\<lambda>(inputs, maxMonths, pg, sg, ir, month, t, c, p, acc).
          nat (maxMonths + 1 - month))") auto

declare projectionLoop.simps [simp del]

definition generateMonthlyProjection ::
  "real CalculatorInputs \<Rightarrow> int \<Rightarrow> real MonthlyProjection list" where
  "generateMonthlyProjection inputs maxMonths =
     (let monthlyPriceGrowth = in_priceGrowthRate inputs / 100 / 12;
          monthlySalaryGrowth = in_salaryGrowthRate inputs / 100 / 12;
          monthlyInterestRate = in_savingsInterestRate inputs / 100 / 12
      in projectionLoop inputs maxMonths monthlyPriceGrowth monthlySalaryGrowth
           monthlyInterestRate 0 (in_initialSavings inputs) (in_monthlySavings inputs)
           (in_apartmentPrice inputs) [])"

subsection \<open>The full calculation\<close>

text \<open>
  \<^verbatim>\<open>calculateAll\<close> calls \<^verbatim>\<open>generateMonthlyProjection(inputs)\<close> with the default
  \<^verbatim>\<open>maxMonths = 120\<close>, and the recommended savings with \<^verbatim>\<open>targetMonths = 24\<close>.
\<close>

definition calculateAll :: "real CalculatorInputs \<Rightarrow> CalculationResults" where
  "calculateAll inputs =
     (let monthsToDownPayment = calculateMonthsToTarget
            (in_apartmentPrice inputs * (in_downPaymentPercent inputs / 100))
            (in_apartmentPrice inputs) (in_priceGrowthRate inputs) (in_monthlySavings inputs)
            (in_salaryGrowthRate inputs) (in_downPaymentPercent inputs)
            (in_initialSavings inputs) (in_savingsInterestRate inputs);
          monthsToFullPrice = calculateMonthsToTarget
            (in_apartmentPrice inputs)
            (in_apartmentPrice inputs) (in_priceGrowthRate inputs) (in_monthlySavings inputs)
            (in_salaryGrowthRate inputs) 100
            (in_initialSavings inputs) (in_savingsInterestRate inputs);
          futureApartmentPrice =
            (if monthsToDownPayment > 0
             then calculateFuturePrice (in_apartmentPrice inputs) (in_priceGrowthRate inputs)
                    monthsToDownPayment
             else in_apartmentPrice inputs);
          requiredDownPayment = futureApartmentPrice * (in_downPaymentPercent inputs / 100);
          loanAmount = futureApartmentPrice - requiredDownPayment;
          monthlyMortgagePayment = calculateMortgagePayment loanAmount
            (in_mortgageRate inputs) (in_mortgageTerm inputs);
          totalMortgagePayment =
            monthlyMortgagePayment * real_of_int (in_mortgageTerm inputs) * 12;
          mortgageOverpayment = totalMortgagePayment - loanAmount;
          targetMonths = 24;
          recommendedMonthlySavings = calculateRecommendedSavings requiredDownPayment
            (in_apartmentPrice inputs) (in_priceGrowthRate inputs)
            (in_salaryGrowthRate inputs) targetMonths (in_downPaymentPercent inputs);
          projectedSavings =
            (if monthsToDownPayment > 0
             then calculateSavingsWithGrowth (in_monthlySavings inputs)
                    (in_salaryGrowthRate inputs) monthsToDownPayment
                    (in_initialSavings inputs) (in_savingsInterestRate inputs)
             else in_initialSavings inputs);
          monthlyProjection = generateMonthlyProjection inputs 120
      in \<lparr>res_futureApartmentPrice = Math_round futureApartmentPrice,
          res_requiredDownPayment = Math_round requiredDownPayment,
          res_monthsToDownPayment = monthsToDownPayment,
          res_monthsToFullPrice = monthsToFullPrice,
          res_monthlyMortgagePayment = Math_round monthlyMortgagePayment,
          res_totalMortgagePayment = Math_round totalMortgagePayment,
          res_mortgageOverpayment = Math_round mortgageOverpayment,
          res_recommendedMonthlySavings = Math_round recommendedMonthlySavings,
          res_projectedSavings = Math_round projectedSavings,
          res_monthlyProjection = monthlyProjection\<rparr>)"

subsection \<open>The recurrences as the specification words them\<close>

text \<open>
  One month of the savings recurrence, on the pair of balance and contribution: the
  balance is multiplied by \<open>1 + i/100/12\<close>, then the contribution is added, then the
  contribution is multiplied by \<open>1 + g/100/12\<close>.
\<close>

definition spec_month_step :: "real \<Rightarrow> real \<Rightarrow> real \<times> real \<Rightarrow> real \<times> real" where
  "spec_month_step i g = (\<lambda>(balance, contribution).
     (let balance1 = balance * (1 + i / 100 / 12);
          balance2 = balance1 + contribution;
          contribution' = contribution * (1 + g / 100 / 12)
      in (balance2, contribution')))"

text \<open>The balance after \<open>n\<close> months, from balance \<open>b\<close> and contribution \<open>c\<close>.\<close>

definition spec_balance :: "real \<Rightarrow> real \<Rightarrow> real \<Rightarrow> real \<Rightarrow> nat \<Rightarrow> real" where
  "spec_balance c g b i n = fst ((spec_month_step i g ^^ n) (b, c))"

text \<open>The price after \<open>n\<close> months of growth by \<open>r/100/12\<close> a month.\<close>

definition spec_price :: "real \<Rightarrow> real \<Rightarrow> nat \<Rightarrow> real" where
  "spec_price p r n = ((\<lambda>price. price * (1 + r / 100 / 12)) ^^ n) p"

text \<open>
  The point of month \<open>k\<close> in closed form: the savings recurrence and the price growth run
  \<open>k\<close> times from the inputs, each field rounded as the loop body rounds it.
\<close>

definition spec_point :: "real CalculatorInputs \<Rightarrow> nat \<Rightarrow> real MonthlyProjection" where
  "spec_point inputs k =
     (let state = (spec_month_step (in_savingsInterestRate inputs) (in_salaryGrowthRate inputs)
                     ^^ k) (in_initialSavings inputs, in_monthlySavings inputs);
          price = spec_price (in_apartmentPrice inputs) (in_priceGrowthRate inputs) k;
          target = price * (in_downPaymentPercent inputs / 100)
      in \<lparr>pt_month = int k,
          pt_apartmentPrice = Math_round price,
          pt_totalSavings = Math_round (fst state),
          pt_monthlySaving = Math_round (snd state),
          pt_downPaymentTarget = Math_round target,
          pt_surplus = Math_round (fst state - target)\<rparr>)"

subsection \<open>The end-to-end scenario of the specification\<close>

definition scenario_inputs :: "real CalculatorInputs" where
  "scenario_inputs =
     \<lparr>in_apartmentPrice = 10000000, in_priceGrowthRate = 8, in_salary = 150000,
      in_salaryGrowthRate = 5, in_monthlySavings = 50000, in_initialSavings = 0,
      in_savingsInterestRate = 10, in_mortgageRate = 18, in_downPaymentPercent = 20,
      in_mortgageTerm = 20\<rparr>"

section \<open>The engine over the arithmetic of the host\<close>

text \<open>
  The month that the search returns, a target that underflows to zero and a sum that
  rounds to \<open>1\<close> are facts of the arithmetic the code runs on, which is that of IEEE 754
  doubles and not that of the reals. For the statements that depend on them the search,
  the projection and the future price are embedded a second time, with the arithmetic as
  a parameter: a record of the operations the code uses on numbers. A statement proved
  for every such record holds for the doubles of the host; the doubles themselves are
  modelled below and are one instance, the exact reals are another, and on the exact
  reals the second embedding is the first one.
\<close>

subsection \<open>The arithmetic as a parameter\<close>

text \<open>
  \<open>n_lit\<close> is the value of an integer literal of the source (\<open>1\<close>, \<open>12\<close>, \<open>100\<close>), \<open>n_ge\<close> the
  comparison \<^verbatim>\<open>>=\<close>, \<open>n_round\<close> the function \<^verbatim>\<open>Math.round\<close>.
\<close>

record 'n arith =
  n_add :: "'n \<Rightarrow> 'n \<Rightarrow> 'n"
  n_sub :: "'n \<Rightarrow> 'n \<Rightarrow> 'n"
  n_mul :: "'n \<Rightarrow> 'n \<Rightarrow> 'n"
  n_div :: "'n \<Rightarrow> 'n \<Rightarrow> 'n"
  n_ge :: "'n \<Rightarrow> 'n \<Rightarrow> bool"
  n_round :: "'n \<Rightarrow> 'n"
  n_lit :: "int \<Rightarrow> 'n"

definition exact :: "real arith" where
  "exact = \<lparr>n_add = (+), n_sub = (-), n_mul = (*), n_div = (/), n_ge = (\<lambda>a b. b \<le> a),
             n_round = Math_round, n_lit = real_of_int\<rparr>"

text \<open>
  \<^verbatim>\<open>calculateFuturePrice\<close>. The value of \<^verbatim>\<open>Math.pow\<close> on doubles is left to the host by the
  language standard (an approximation of the power), so the function is a parameter here.
\<close>

definition calculateFuturePrice_in ::
  "'n arith \<Rightarrow> ('n \<Rightarrow> int \<Rightarrow> 'n) \<Rightarrow> 'n \<Rightarrow> 'n \<Rightarrow> int \<Rightarrow> 'n" where
  "calculateFuturePrice_in A pow currentPrice annualGrowthRate months =
     (let monthlyRate = n_div A (n_div A annualGrowthRate (n_lit A 100)) (n_lit A 12)
      in n_mul A currentPrice (pow (n_add A (n_lit A 1) monthlyRate) months))"

text \<open>\<^verbatim>\<open>calculateMonthsToTarget\<close> and its \<^verbatim>\<open>while\<close> loop.\<close>

function targetLoop_in ::
  "'n arith \<Rightarrow> 'n \<Rightarrow> 'n \<Rightarrow> 'n \<Rightarrow> 'n \<Rightarrow> 'n \<Rightarrow> 'n \<Rightarrow> 'n \<Rightarrow> int \<Rightarrow> int" where
  "targetLoop_in A monthlyPriceGrowth monthlySalaryGrowth monthlyInterestRate targetPercent
       totalSavings currentSaving currentApartmentPrice months =
     (if months < 600
      then let totalSavings' =
                 n_add A (n_mul A totalSavings (n_add A (n_lit A 1) monthlyInterestRate))
                   currentSaving;
               currentSaving' = n_mul A currentSaving (n_add A (n_lit A 1) monthlySalaryGrowth);
               currentApartmentPrice' =
                 n_mul A currentApartmentPrice (n_add A (n_lit A 1) monthlyPriceGrowth);
               months' = months + 1;
               target = n_mul A currentApartmentPrice' (n_div A targetPercent (n_lit A 100))
           in if n_ge A totalSavings' target
              then months'
              else targetLoop_in A monthlyPriceGrowth monthlySalaryGrowth monthlyInterestRate
                     targetPercent totalSavings' currentSaving' currentApartmentPrice' months'
      else - 1)"
  by pat_completeness auto
termination
  by (relation "measure (\<lambda>(A, pg, sg, ir, tp, t, c, p, months). nat (600 - months))") auto

declare targetLoop_in.simps [simp del]

definition calculateMonthsToTarget_in ::
  "'n arith \<Rightarrow> 'n \<Rightarrow> 'n \<Rightarrow> 'n \<Rightarrow> 'n \<Rightarrow> 'n \<Rightarrow> 'n \<Rightarrow> 'n \<Rightarrow> 'n \<Rightarrow> int" where
  "calculateMonthsToTarget_in A targetAmount currentPrice priceGrowthRate monthlySavings
       salaryGrowthRate targetPercent initialSavings savingsInterestRate =
     (let monthlyPriceGrowth = n_div A (n_div A priceGrowthRate (n_lit A 100)) (n_lit A 12);
          monthlySalaryGrowth = n_div A (n_div A salaryGrowthRate (n_lit A 100)) (n_lit A 12);
          monthlyInterestRate = n_div A (n_div A savingsInterestRate (n_lit A 100)) (n_lit A 12);
          initialTarget = n_mul A currentPrice (n_div A targetPercent (n_lit A 100))
      in if n_ge A initialSavings initialTarget
         then 0
         else targetLoop_in A monthlyPriceGrowth monthlySalaryGrowth monthlyInterestRate
                targetPercent initialSavings monthlySavings currentPrice 0)"

text \<open>\<^verbatim>\<open>generateMonthlyProjection\<close> and its \<^verbatim>\<open>for\<close> loop.\<close>

function projectionLoop_in ::
  "'n arith \<Rightarrow> 'n CalculatorInputs \<Rightarrow> int \<Rightarrow> 'n \<Rightarrow> 'n \<Rightarrow> 'n \<Rightarrow> int \<Rightarrow> 'n \<Rightarrow> 'n \<Rightarrow> 'n
     \<Rightarrow> 'n MonthlyProjection list \<Rightarrow> 'n MonthlyProjection list" where
  "projectionLoop_in A inputs maxMonths monthlyPriceGrowth monthlySalaryGrowth
       monthlyInterestRate month totalSavings currentSaving currentApartmentPrice projection =
     (if month \<le> maxMonths
      then let downPaymentTarget =
                 n_mul A currentApartmentPrice
                   (n_div A (in_downPaymentPercent inputs) (n_lit A 100));
               projection' = projection @
                 [\<lparr>pt_month = month,
                   pt_apartmentPrice = n_round A currentApartmentPrice,
                   pt_totalSavings = n_round A totalSavings,
                   pt_monthlySaving = n_round A currentSaving,
                   pt_downPaymentTarget = n_round A downPaymentTarget,
                   pt_surplus = n_round A (n_sub A totalSavings downPaymentTarget)\<rparr>]
           in projectionLoop_in A inputs maxMonths monthlyPriceGrowth monthlySalaryGrowth
                monthlyInterestRate (month + 1)
                (n_add A (n_mul A totalSavings (n_add A (n_lit A 1) monthlyInterestRate))
                   currentSaving)
                (n_mul A currentSaving (n_add A (n_lit A 1) monthlySalaryGrowth))
                (n_mul A currentApartmentPrice (n_add A (n_lit A 1) monthlyPriceGrowth))
                projection'
      else projection)"
  by pat_completeness auto
termination
  by (relation
       "measure (\<lambda>(A, inputs, maxMonths, pg, sg, ir, month, t, c, p, acc).
          nat (maxMonths + 1 - month))") auto

declare projectionLoop_in.simps [simp del]

definition generateMonthlyProjection_in ::
  "'n arith \<Rightarrow> 'n CalculatorInputs \<Rightarrow> int \<Rightarrow> 'n MonthlyProjection list" where
  "generateMonthlyProjection_in A inputs maxMonths =
     (let monthlyPriceGrowth =
            n_div A (n_div A (in_priceGrowthRate inputs) (n_lit A 100)) (n_lit A 12);
          monthlySalaryGrowth =
            n_div A (n_div A (in_salaryGrowthRate inputs) (n_lit A 100)) (n_lit A 12);
          monthlyInterestRate =
            n_div A (n_div A (in_savingsInterestRate inputs) (n_lit A 100)) (n_lit A 12)
      in projectionLoop_in A inputs maxMonths monthlyPriceGrowth monthlySalaryGrowth
           monthlyInterestRate 0 (in_initialSavings inputs) (in_monthlySavings inputs)
           (in_apartmentPrice inputs) [])"

subsection \<open>The recurrences as the specification words them, in the arithmetic\<close>

text \<open>
  The monthly rate \<open>r/100/12\<close>; growth of a value by it, \<open>x * (1 + r/100/12)\<close>; the month
  step of balance and contribution; the balance and the price after \<open>n\<close> months; the target
  \<open>price * (targetPercent/100)\<close>, the fraction being formed first as the code forms it; the
  months that meet their target; the search; the point of month \<open>k\<close>.
\<close>

definition monthly_rate_in :: "'n arith \<Rightarrow> 'n \<Rightarrow> 'n" where
  "monthly_rate_in A annualRate = n_div A (n_div A annualRate (n_lit A 100)) (n_lit A 12)"

definition growth_in :: "'n arith \<Rightarrow> 'n \<Rightarrow> 'n \<Rightarrow> 'n" where
  "growth_in A annualRate x = n_mul A x (n_add A (n_lit A 1) (monthly_rate_in A annualRate))"

definition spec_month_step_in :: "'n arith \<Rightarrow> 'n \<Rightarrow> 'n \<Rightarrow> 'n \<times> 'n \<Rightarrow> 'n \<times> 'n" where
  "spec_month_step_in A i g = (\<lambda>(balance, contribution).
     (let balance1 = growth_in A i balance;
          balance2 = n_add A balance1 contribution;
          contribution' = growth_in A g contribution
      in (balance2, contribution')))"

definition spec_balance_in :: "'n arith \<Rightarrow> 'n \<Rightarrow> 'n \<Rightarrow> 'n \<Rightarrow> 'n \<Rightarrow> nat \<Rightarrow> 'n" where
  "spec_balance_in A c g b i n = fst ((spec_month_step_in A i g ^^ n) (b, c))"

definition spec_price_in :: "'n arith \<Rightarrow> 'n \<Rightarrow> 'n \<Rightarrow> nat \<Rightarrow> 'n" where
  "spec_price_in A p r n = (growth_in A r ^^ n) p"

definition spec_target_in :: "'n arith \<Rightarrow> 'n \<Rightarrow> 'n \<Rightarrow> 'n" where
  "spec_target_in A price targetPercent = n_mul A price (n_div A targetPercent (n_lit A 100))"

definition spec_target_met_in ::
  "'n arith \<Rightarrow> 'n \<Rightarrow> 'n \<Rightarrow> 'n \<Rightarrow> 'n \<Rightarrow> 'n \<Rightarrow> 'n \<Rightarrow> 'n \<Rightarrow> nat \<Rightarrow> bool" where
  "spec_target_met_in A currentPrice priceGrowthRate monthlySavings salaryGrowthRate
       targetPercent initialSavings savingsInterestRate m \<longleftrightarrow>
     n_ge A
       (spec_balance_in A monthlySavings salaryGrowthRate initialSavings savingsInterestRate m)
       (spec_target_in A (spec_price_in A currentPrice priceGrowthRate m) targetPercent)"

definition spec_monthsToTarget_in ::
  "'n arith \<Rightarrow> 'n \<Rightarrow> 'n \<Rightarrow> 'n \<Rightarrow> 'n \<Rightarrow> 'n \<Rightarrow> 'n \<Rightarrow> 'n \<Rightarrow> int" where
  "spec_monthsToTarget_in A currentPrice priceGrowthRate monthlySavings salaryGrowthRate
       targetPercent initialSavings savingsInterestRate =
     (if n_ge A initialSavings (spec_target_in A currentPrice targetPercent)
      then 0
      else case List.find
                  (spec_target_met_in A currentPrice priceGrowthRate monthlySavings
                     salaryGrowthRate targetPercent initialSavings savingsInterestRate)
                  [1..<601] of
             Some m \<Rightarrow> int m
           | None \<Rightarrow> - 1)"

definition spec_point_in :: "'n arith \<Rightarrow> 'n CalculatorInputs \<Rightarrow> nat \<Rightarrow> 'n MonthlyProjection" where
  "spec_point_in A inputs k =
     (let balance = spec_balance_in A (in_monthlySavings inputs) (in_salaryGrowthRate inputs)
                      (in_initialSavings inputs) (in_savingsInterestRate inputs) k;
          contribution =
            snd ((spec_month_step_in A (in_savingsInterestRate inputs)
                    (in_salaryGrowthRate inputs) ^^ k)
                   (in_initialSavings inputs, in_monthlySavings inputs));
          price = spec_price_in A (in_apartmentPrice inputs) (in_priceGrowthRate inputs) k;
          target = spec_target_in A price (in_downPaymentPercent inputs)
      in \<lparr>pt_month = int k,
          pt_apartmentPrice = n_round A price,
          pt_totalSavings = n_round A balance,
          pt_monthlySaving = n_round A contribution,
          pt_downPaymentTarget = n_round A target,
          pt_surplus = n_round A (n_sub A balance target)\<rparr>)"

text \<open>The scenario of the specification, its numbers being literals of the arithmetic.\<close>

definition scenario_inputs_in :: "'n arith \<Rightarrow> 'n CalculatorInputs" where
  "scenario_inputs_in A =
     \<lparr>in_apartmentPrice = n_lit A 10000000, in_priceGrowthRate = n_lit A 8,
      in_salary = n_lit A 150000, in_salaryGrowthRate = n_lit A 5,
      in_monthlySavings = n_lit A 50000, in_initialSavings = n_lit A 0,
      in_savingsInterestRate = n_lit A 10, in_mortgageRate = n_lit A 18,
      in_downPaymentPercent = n_lit A 20, in_mortgageTerm = 20\<rparr>"

subsection \<open>IEEE 754 doubles\<close>

text \<open>
  A double is a finite value, an infinity or NaN. The finite values are kept as reals; the
  doubles among them are the fixed points of the rounding below (\<open>is_double\<close>). The two
  zeros are not told apart: the sign of a zero shows only in a quotient by that zero and
  in the printed form, and the functions embedded here divide by the literals \<open>100\<close> and
  \<open>12\<close> only.
\<close>

datatype double = Finite real | PlusInfinity | MinusInfinity | NaN

text \<open>Rounding a real to the nearest integer, a tie going to the even neighbour.\<close>

definition rne :: "real \<Rightarrow> int" where
  "rne x =
     (let n = \<lfloor>x\<rfloor>; d = x - real_of_int n
      in if d < 1 / 2 then n else if 1 / 2 < d then n + 1 else if even n then n else n + 1)"

text \<open>
  The binary exponent of a positive real: \<open>2 ^ ilog2 x \<le> x < 2 ^ (ilog2 x + 1)\<close>, found by
  halving a value of at least \<open>1\<close>, or doubling a value below \<open>1\<close>.
\<close>

function halvings :: "real \<Rightarrow> nat" where
  "halvings x = (if x < 2 then 0 else Suc (halvings (x / 2)))"
  by pat_completeness auto
termination
proof (relation "measure (\<lambda>x. nat \<lceil>x\<rceil>)")
  show "wf (measure (\<lambda>x::real. nat \<lceil>x\<rceil>))" by simp
next
  fix x :: real
  assume "\<not> x < 2"
  then have "\<lceil>x / 2\<rceil> < \<lceil>x\<rceil>" and "0 < \<lceil>x\<rceil>" by linarith+
  then show "(x / 2, x) \<in> measure (\<lambda>x. nat \<lceil>x\<rceil>)" by simp
qed

function doublings :: "real \<Rightarrow> nat" where
  "doublings x = (if x \<le> 0 \<or> 1 \<le> x then 0 else Suc (doublings (2 * x)))"
  by pat_completeness auto
termination
proof (relation "measure (\<lambda>x. nat \<lceil>1 / x\<rceil>)")
  show "wf (measure (\<lambda>x::real. nat \<lceil>1 / x\<rceil>))" by simp
next
  fix x :: real
  assume "\<not> (x \<le> 0 \<or> 1 \<le> x)"
  then have x: "0 < x" "x < 1" by simp_all
  define y where "y = 1 / x"
  have y: "1 < y" using x by (simp add: y_def)
  have half: "1 / (2 * x) = y / 2" by (simp add: y_def)
  have two: "2 \<le> \<lceil>y\<rceil>" using y by linarith
  then have "2 \<le> real_of_int \<lceil>y\<rceil>" by linarith
  moreover have "y \<le> real_of_int \<lceil>y\<rceil>" by (rule le_of_int_ceiling)
  ultimately have "y / 2 \<le> real_of_int \<lceil>y\<rceil> - 1" by linarith
  then have "y / 2 \<le> real_of_int (\<lceil>y\<rceil> - 1)" by simp
  then have "\<lceil>y / 2\<rceil> \<le> \<lceil>y\<rceil> - 1" by (simp only: ceiling_le_iff)
  with two have "\<lceil>y / 2\<rceil> < \<lceil>y\<rceil>" and "0 < \<lceil>y\<rceil>" by linarith+
  then have "\<lceil>1 / (2 * x)\<rceil> < \<lceil>1 / x\<rceil>" and "0 < \<lceil>1 / x\<rceil>"
    unfolding half by (simp_all add: y_def)
  then show "(2 * x, x) \<in> measure (\<lambda>x. nat \<lceil>1 / x\<rceil>)" by simp
qed

declare halvings.simps [simp del] doublings.simps [simp del]

definition ilog2 :: "real \<Rightarrow> int" where
  "ilog2 x = (if 1 \<le> x then int (halvings x) else - int (doublings x))"

text \<open>
  The spacing of the doubles around \<open>x\<close>: 53 significant bits, and the fixed spacing
  \<open>2 ^ -1074\<close> of the subnormal range below \<open>2 ^ -1022\<close>.
\<close>

definition quantum :: "real \<Rightarrow> real" where
  "quantum x = 2 powi (max (ilog2 \<bar>x\<bar>) (- 1022) - 52)"

text \<open>
  Rounding to nearest, ties to even; a result of magnitude \<open>2 ^ 1024\<close> or more is an
  infinity.
\<close>

definition round_real :: "real \<Rightarrow> real" where
  "round_real x = (if x = 0 then 0 else real_of_int (rne (x / quantum x)) * quantum x)"

definition round_double :: "real \<Rightarrow> double" where
  "round_double x =
     (let y = round_real x
      in if 2 powi 1024 \<le> y then PlusInfinity
         else if y \<le> - (2 powi 1024) then MinusInfinity
         else Finite y)"



text \<open>
  The operations \<^verbatim>\<open>+\<close>, \<^verbatim>\<open>-\<close>, \<^verbatim>\<open>*\<close>, \<^verbatim>\<open>/\<close>, \<^verbatim>\<open>>=\<close>, \<^verbatim>\<open>>\<close> of the host on doubles: the exact
  result rounded, with the rules of the standard for infinities and NaN. An earlier
  equation of a definition takes precedence over a later one.
\<close>

fun fl_neg :: "double \<Rightarrow> double" where
  "fl_neg (Finite x) = Finite (- x)"
| "fl_neg PlusInfinity = MinusInfinity"
| "fl_neg MinusInfinity = PlusInfinity"
| "fl_neg NaN = NaN"

fun fl_add :: "double \<Rightarrow> double \<Rightarrow> double" where
  "fl_add (Finite x) (Finite y) = round_double (x + y)"
| "fl_add NaN b = NaN"
| "fl_add a NaN = NaN"
| "fl_add PlusInfinity MinusInfinity = NaN"
| "fl_add MinusInfinity PlusInfinity = NaN"
| "fl_add PlusInfinity b = PlusInfinity"
| "fl_add a PlusInfinity = PlusInfinity"
| "fl_add MinusInfinity b = MinusInfinity"
| "fl_add a MinusInfinity = MinusInfinity"

definition fl_sub :: "double \<Rightarrow> double \<Rightarrow> double" where
  "fl_sub a b = fl_add a (fl_neg b)"

fun fl_mul :: "double \<Rightarrow> double \<Rightarrow> double" where
  "fl_mul (Finite x) (Finite y) = round_double (x * y)"
| "fl_mul NaN b = NaN"
| "fl_mul a NaN = NaN"
| "fl_mul (Finite x) b = (if x = 0 then NaN else if 0 < x then b else fl_neg b)"
| "fl_mul a (Finite y) = (if y = 0 then NaN else if 0 < y then a else fl_neg a)"
| "fl_mul PlusInfinity b = b"
| "fl_mul MinusInfinity b = fl_neg b"

fun fl_div :: "double \<Rightarrow> double \<Rightarrow> double" where
  "fl_div (Finite x) (Finite y) =
     (if y = 0
      then (if x = 0 then NaN else if 0 < x then PlusInfinity else MinusInfinity)
      else round_double (x / y))"
| "fl_div NaN b = NaN"
| "fl_div a NaN = NaN"
| "fl_div (Finite x) b = Finite 0"
| "fl_div a (Finite y) = (if 0 \<le> y then a else fl_neg a)"
| "fl_div a b = NaN"

fun fl_ge :: "double \<Rightarrow> double \<Rightarrow> bool" where
  "fl_ge (Finite x) (Finite y) \<longleftrightarrow> y \<le> x"
| "fl_ge NaN b \<longleftrightarrow> False"
| "fl_ge a NaN \<longleftrightarrow> False"
| "fl_ge PlusInfinity b \<longleftrightarrow> True"
| "fl_ge a MinusInfinity \<longleftrightarrow> True"
| "fl_ge a b \<longleftrightarrow> False"

fun fl_gt :: "double \<Rightarrow> double \<Rightarrow> bool" where
  "fl_gt (Finite x) (Finite y) \<longleftrightarrow> y < x"
| "fl_gt NaN b \<longleftrightarrow> False"
| "fl_gt a NaN \<longleftrightarrow> False"
| "fl_gt PlusInfinity PlusInfinity \<longleftrightarrow> False"
| "fl_gt MinusInfinity MinusInfinity \<longleftrightarrow> False"
| "fl_gt PlusInfinity b \<longleftrightarrow> True"
| "fl_gt a MinusInfinity \<longleftrightarrow> True"
| "fl_gt a b \<longleftrightarrow> False"

text \<open>
  \<^verbatim>\<open>Math.round\<close>: the integer nearest to the exact value, a tie going up; the result is
  a double (a finite double of magnitude \<open>2 ^ 52\<close> or more is an integer already).
\<close>

fun fl_round :: "double \<Rightarrow> double" where
  "fl_round (Finite x) = Finite (real_of_int \<lfloor>x + 1 / 2\<rfloor>)"
| "fl_round a = a"

text \<open>A numeric literal, and the finite values that are doubles.\<close>

definition fl_lit :: "int \<Rightarrow> double" where
  "fl_lit n = round_double (real_of_int n)"

fun is_double :: "double \<Rightarrow> bool" where
  "is_double (Finite x) \<longleftrightarrow> round_double x = Finite x"
| "is_double a \<longleftrightarrow> True"

definition ieee :: "double arith" where
  "ieee = \<lparr>n_add = fl_add, n_sub = fl_sub, n_mul = fl_mul, n_div = fl_div, n_ge = fl_ge,
            n_round = fl_round, n_lit = fl_lit\<rparr>"

text \<open>
  An instance of \<^verbatim>\<open>Math.pow\<close> for an integer exponent: the correctly rounded power. A host
  may return a neighbouring double for some arguments; at the base \<open>1\<close> the power is \<open>1\<close>
  exactly.
\<close>

fun pow_rounded :: "double \<Rightarrow> int \<Rightarrow> double" where
  "pow_rounded (Finite x) n =
     (if x = 0 \<and> n < 0 then PlusInfinity else round_double (x powi n))"
| "pow_rounded PlusInfinity n =
     (if n = 0 then Finite 1 else if 0 < n then PlusInfinity else Finite 0)"
| "pow_rounded MinusInfinity n =
     (if n = 0 then Finite 1
      else if n < 0 then Finite 0
      else if even n then PlusInfinity else MinusInfinity)"
| "pow_rounded NaN n = (if n = 0 then Finite 1 else NaN)"

text \<open>
  Predicates of the proofs below: a value that is zero or NaN; a value that is at least
  a real bound (an infinity or a finite value); a power function that, for a base of at
  least \<open>1\<close> and exponents \<open>0 \<le> n \<le> m\<close>, is at least \<open>1\<close> and does not decrease from \<open>n\<close>
  to \<open>m\<close>.
\<close>

definition inert :: "double \<Rightarrow> bool" where
  "inert a \<longleftrightarrow> a = Finite 0 \<or> a = NaN"

fun at_least :: "real \<Rightarrow> double \<Rightarrow> bool" where
  "at_least l (Finite y) \<longleftrightarrow> l \<le> y"
| "at_least l PlusInfinity \<longleftrightarrow> True"
| "at_least l a \<longleftrightarrow> False"

definition pow_monotone :: "(double \<Rightarrow> int \<Rightarrow> double) \<Rightarrow> bool" where
  "pow_monotone pow \<longleftrightarrow>
     (\<forall>b n m. at_least 1 b \<longrightarrow> 0 \<le> n \<longrightarrow> n \<le> m \<longrightarrow>
        at_least 1 (pow b n) \<and> fl_ge (pow b m) (pow b n))"

section \<open>The savings recurrence\<close>

lemma spec_month_step_apply:
  "spec_month_step i g (b, c) = (b * (1 + i / 100 / 12) + c, c * (1 + g / 100 / 12))"
  by (simp add: spec_month_step_def)

text \<open>The loop from counter \<open>k\<close> runs the step \<open>months - k\<close> times (no time when \<open>months \<le> k\<close>).\<close>

lemma savingsLoop_funpow:
  "savingsLoop (g / 100 / 12) (i / 100 / 12) months k t c =
     fst ((spec_month_step i g ^^ nat (months - k)) (t, c))"
proof (induction "nat (months - k)" arbitrary: k t c)
  case 0
  then have "\<not> k < months" by simp
  with 0 show ?case by (simp add: savingsLoop.simps)
next
  case (Suc n)
  then have lt: "k < months" and n: "n = nat (months - (k + 1))" by simp_all
  have "savingsLoop (g / 100 / 12) (i / 100 / 12) months k t c =
        savingsLoop (g / 100 / 12) (i / 100 / 12) months (k + 1)
          (t * (1 + i / 100 / 12) + c) (c * (1 + g / 100 / 12))"
    using lt by (subst savingsLoop.simps) simp
  also have "\<dots> = fst ((spec_month_step i g ^^ n)
                      (t * (1 + i / 100 / 12) + c, c * (1 + g / 100 / 12)))"
    using Suc.hyps(1) [OF n] n by simp
  also have "\<dots> = fst ((spec_month_step i g ^^ Suc n) (t, c))"
    by (simp only: funpow_Suc_right o_apply spec_month_step_apply)
  finally show ?case using Suc.hyps(2) by simp
qed

lemma calculateSavingsWithGrowth_spec:
  "calculateSavingsWithGrowth c g n b i = spec_balance c g b i (nat n)"
  unfolding calculateSavingsWithGrowth_def spec_balance_def Let_def
  using savingsLoop_funpow [of g i n 0 b c] by simp

text \<open>
  Claim C3. For every initial contribution \<open>c\<close>, salary growth rate \<open>g\<close>, month count \<open>n\<close>,
  initial balance \<open>b\<close> and interest rate \<open>i\<close>, \<^verbatim>\<open>calculateSavingsWithGrowth(c, g, n, b, i)\<close>
  is the balance after the \<open>n\<close>-fold iteration, from balance \<open>b\<close> and contribution \<open>c\<close>, of
  the step: multiply the balance by \<open>1 + i/100/12\<close>, add the contribution, multiply the
  contribution by \<open>1 + g/100/12\<close>. For \<open>n = 0\<close> it is \<open>b\<close>; after one month it is
  \<open>b * (1 + i/100/12) + c\<close>, so the month's contribution has earned no interest.
\<close>

theorem savings_iteration:
  "calculateSavingsWithGrowth c g n b i = fst ((spec_month_step i g ^^ nat n) (b, c))
   \<and> calculateSavingsWithGrowth c g 0 b i = b
   \<and> calculateSavingsWithGrowth c g 1 b i = b * (1 + i / 100 / 12) + c"
  by (simp add: calculateSavingsWithGrowth_spec spec_balance_def spec_month_step_apply)

section \<open>The search on the exact reals without savings\<close>

text \<open>
  With no balance and no contribution the balance stays \<open>0\<close>, below the target of a
  positive price that is multiplied by a positive factor every month.
\<close>

lemma targetLoop_no_savings:
  "0 < p \<Longrightarrow> 0 < tp \<Longrightarrow> 0 < 1 + pgm \<Longrightarrow> targetLoop pgm sgm irm tp 0 0 p m = - 1"
proof (induction "nat (600 - m)" arbitrary: p m)
  case 0
  then have "\<not> m < 600" by simp
  then show ?case by (subst targetLoop.simps) simp
next
  case (Suc n)
  then have lt: "m < 600" and n: "n = nat (600 - (m + 1))" by simp_all
  have pos: "0 < p * (1 + pgm)" using Suc.prems by simp
  then have tpos: "0 < p * (1 + pgm) * (tp / 100)" using Suc.prems by simp
  have "targetLoop pgm sgm irm tp 0 0 p m = targetLoop pgm sgm irm tp 0 0 (p * (1 + pgm)) (m + 1)"
    using lt tpos by (subst targetLoop.simps) (simp add: Let_def not_le)
  also have "\<dots> = - 1"
    using Suc.hyps(1) [OF n pos Suc.prems(2) Suc.prems(3)] .
  finally show ?case .
qed

section \<open>The unused first parameter\<close>

text \<open>
  Claim C10. For all values \<open>t1\<close>, \<open>t2\<close> of the first parameter \<^verbatim>\<open>targetAmount\<close> and all
  other arguments held fixed, \<^verbatim>\<open>calculateMonthsToTarget\<close> returns the same month and
  \<^verbatim>\<open>calculateRecommendedSavings\<close> the same amount: neither reads the parameter.
\<close>

theorem targetAmount_unused:
  "calculateMonthsToTarget t1 cp pg ms sg tp init ir =
     calculateMonthsToTarget t2 cp pg ms sg tp init ir
   \<and> calculateRecommendedSavings t1 cp pg sg tm dp =
     calculateRecommendedSavings t2 cp pg sg tm dp"
  by (simp add: calculateMonthsToTarget_def calculateRecommendedSavings_def)

section \<open>Rounding\<close>

lemma Math_round_ge: "x - 1 / 2 < Math_round x"
  unfolding Math_round_def by linarith

lemma Math_round_le: "Math_round x \<le> x + 1 / 2"
  unfolding Math_round_def by linarith

lemma Math_round_pos: "1 / 2 \<le> x \<Longrightarrow> 0 < Math_round x"
  unfolding Math_round_def by (simp add: le_floor_iff) 

section \<open>The annuity payment\<close>

lemma calculateMortgagePayment_zero_rate:
  "annualRate / 100 / 12 = 0 \<Longrightarrow>
     calculateMortgagePayment P annualRate termYears = P / real_of_int (termYears * 12)"
  by (simp add: calculateMortgagePayment_def)

lemma calculateMortgagePayment_annuity:
  "annualRate / 100 / 12 \<noteq> 0 \<Longrightarrow>
     calculateMortgagePayment P annualRate termYears =
       P * (annualRate / 100 / 12 * (1 + annualRate / 100 / 12) powi (termYears * 12))
         / ((1 + annualRate / 100 / 12) powi (termYears * 12) - 1)"
  by (simp add: calculateMortgagePayment_def Math_pow_def Let_def)

lemma annuity_identity:
  fixes P m q :: real
  assumes "m \<noteq> 0" "q \<noteq> 1"
  shows "P * (m * q) / (q - 1) * (q - 1) / m = P * q"
  using assms by simp

lemma annuity_example:
  "calculateMortgagePayment 1000000 12 20 * ((1 + 0.01) ^ 240 - 1) / 0.01
     = 1000000 * (1 + 0.01) ^ 240"
proof -
  define q :: real where "q = (1 + 0.01) ^ 240"
  have "(1::real) < (1 + 0.01) ^ 240"
    by (rule one_less_power) simp_all
  then have q1: "q \<noteq> 1" by (simp only: q_def)
  have rate: "(12::real) / 100 / 12 = 0.01" by simp
  have "calculateMortgagePayment 1000000 12 20 = 1000000 * (0.01 * q) / (q - 1)"
    unfolding q_def
    by (subst calculateMortgagePayment_annuity) (simp_all only: rate, simp_all del: power_numeral)
  then show ?thesis
    using annuity_identity [of "0.01" q 1000000] q1 unfolding q_def [symmetric] by simp
qed

lemma payment_exceeds_interest:
  assumes "0 < L" "0 < annualRate" "0 < termYears"
  shows "L * (annualRate / 100 / 12) < calculateMortgagePayment L annualRate termYears"
proof -
  define m where "m = annualRate / 100 / 12"
  define q where "q = (1 + m) powi (termYears * 12)"
  have m: "0 < m" using assms by (simp add: m_def)
  have "(1 + m) powi 0 < (1 + m) powi (termYears * 12)"
    using m assms by (intro power_int_strict_increasing) simp_all
  then have q: "1 < q" by (simp add: q_def)
  have "calculateMortgagePayment L annualRate termYears = L * (m * q) / (q - 1)"
    using m unfolding m_def q_def by (subst calculateMortgagePayment_annuity) simp_all
  moreover have "L * m < L * (m * q) / (q - 1)"
  proof -
    have "L * m * (q - 1) < L * m * q" using assms m by simp
    then show ?thesis using q by (simp add: pos_less_divide_eq mult.assoc)
  qed
  ultimately show ?thesis by (simp add: m_def)
qed



section \<open>The end-to-end scenario\<close>

text \<open>The search runs 41 months on the scenario; the loop is unfolded on exact fractions.\<close>

lemma scenario_months: "calculateMonthsToTarget 2000000 10000000 8 50000 5 20 0 10 = 41"
  by (simp add: calculateMonthsToTarget_def targetLoop.simps Let_def)

text \<open>
  Claim C5. On the scenario inputs (price \<open>10000000\<close>, price growth \<open>8\<close>, salary \<open>150000\<close>,
  salary growth \<open>5\<close>, monthly savings \<open>50000\<close>, initial savings \<open>0\<close>, interest \<open>10\<close>,
  mortgage rate \<open>18\<close>, down payment \<open>20\<close> percent, term \<open>20\<close> years) \<^verbatim>\<open>calculateAll\<close>
  gives a \<^verbatim>\<open>monthsToDownPayment\<close> that is positive and below \<open>600\<close>, a
  \<^verbatim>\<open>monthlyMortgagePayment\<close> above \<open>loanAmount / 240\<close>, where the loan amount is the future
  price minus the required down payment (both as computed before rounding, and as the
  rounded fields of the result), and a \<^verbatim>\<open>mortgageOverpayment\<close> above zero.
\<close>

theorem scenario_end_to_end:
  "0 < res_monthsToDownPayment (calculateAll scenario_inputs)
   \<and> res_monthsToDownPayment (calculateAll scenario_inputs) < 600
   \<and> (calculateFuturePrice 10000000 8 (res_monthsToDownPayment (calculateAll scenario_inputs))
        - calculateFuturePrice 10000000 8 (res_monthsToDownPayment (calculateAll scenario_inputs))
            * (20 / 100)) / 240
       < res_monthlyMortgagePayment (calculateAll scenario_inputs)
   \<and> (res_futureApartmentPrice (calculateAll scenario_inputs)
        - res_requiredDownPayment (calculateAll scenario_inputs)) / 240
       < res_monthlyMortgagePayment (calculateAll scenario_inputs)
   \<and> 0 < res_mortgageOverpayment (calculateAll scenario_inputs)"
proof -
  define F where "F = calculateFuturePrice 10000000 8 41"
  define L where "L = F - F * (20 / 100)"
  define pay where "pay = calculateMortgagePayment L 18 20"
  have months: "res_monthsToDownPayment (calculateAll scenario_inputs) = 41"
    by (simp add: calculateAll_def scenario_inputs_def Let_def scenario_months)
  have future: "res_futureApartmentPrice (calculateAll scenario_inputs) = Math_round F"
    by (simp add: calculateAll_def scenario_inputs_def Let_def scenario_months F_def)
  have down: "res_requiredDownPayment (calculateAll scenario_inputs) = Math_round (F * (20 / 100))"
    by (simp add: calculateAll_def scenario_inputs_def Let_def scenario_months F_def)
  have payment: "res_monthlyMortgagePayment (calculateAll scenario_inputs) = Math_round pay"
    by (simp add: calculateAll_def scenario_inputs_def Let_def scenario_months F_def L_def pay_def)
  have over: "res_mortgageOverpayment (calculateAll scenario_inputs) =
                Math_round (pay * 20 * 12 - L)"
    by (simp add: calculateAll_def scenario_inputs_def Let_def scenario_months F_def L_def pay_def)
  have "(1::real) \<le> (1 + 8 / 100 / 12) ^ 41"
    by (rule one_le_power) simp
  then have F: "10000000 \<le> F"
    by (simp add: F_def calculateFuturePrice_def Math_pow_def del: power_numeral)
  then have L: "8000000 \<le> L" by (simp add: L_def)
  have "L * (18 / 100 / 12) < pay"
    unfolding pay_def using L by (intro payment_exceeds_interest) simp_all
  then have pay: "L * 3 / 200 < pay" by simp
  have c1: "L / 240 < Math_round pay"
    using Math_round_ge [of pay] pay L by linarith
  have "Math_round F - Math_round (F * (20 / 100)) < L + 1"
    using Math_round_le [of F] Math_round_ge [of "F * (20 / 100)"] unfolding L_def
    by linarith
  then have "(Math_round F - Math_round (F * (20 / 100))) / 240 < (L + 1) / 240"
    by (simp add: divide_strict_right_mono)
  moreover have "L / 240 + 1 / 240 < pay - 1 / 2"
    using pay L by linarith
  then have "(L + 1) / 240 < pay - 1 / 2"
    by (simp only: add_divide_distrib)
  ultimately have c2: "(Math_round F - Math_round (F * (20 / 100))) / 240 < Math_round pay"
    using Math_round_ge [of pay] by linarith
  have c3: "0 < Math_round (pay * 20 * 12 - L)"
    using pay L by (intro Math_round_pos) linarith
  show ?thesis
    unfolding months future down payment over
    using c1 c2 c3 by (simp add: F_def [symmetric] L_def)
qed

section \<open>The monthly projection\<close>

text \<open>Rounding a whole number changes nothing.\<close>

lemma Math_round_whole: "x \<in> \<int> \<Longrightarrow> Math_round x = x"
  by (auto simp: Math_round_def Ints_def)

lemma map_int_upt: "map int [k..<n] = [int k..int n - 1]"
proof (induction "n - k" arbitrary: k)
  case 0
  then show ?case by simp
next
  case (Suc d)
  then have lt: "k < n" and d: "d = n - Suc k" by simp_all
  have "[int k..int n - 1] = int k # [int (Suc k)..int n - 1]"
    using lt by (subst upto_rec1) (simp_all add: add.commute)
  with Suc.hyps(1) [OF d] lt show ?case by (simp add: upt_conv_Cons)
qed

text \<open>
  The loop entered at month \<open>k\<close> with the state that \<open>k\<close> months of the recurrences produce
  appends the points of the months \<open>k, \<dots>, maxMonths\<close>.
\<close>

lemma projectionLoop_points:
  "projectionLoop inputs maxMonths
     (in_priceGrowthRate inputs / 100 / 12) (in_salaryGrowthRate inputs / 100 / 12)
     (in_savingsInterestRate inputs / 100 / 12) (int k)
     (fst ((spec_month_step (in_savingsInterestRate inputs) (in_salaryGrowthRate inputs) ^^ k)
            (in_initialSavings inputs, in_monthlySavings inputs)))
     (snd ((spec_month_step (in_savingsInterestRate inputs) (in_salaryGrowthRate inputs) ^^ k)
            (in_initialSavings inputs, in_monthlySavings inputs)))
     (spec_price (in_apartmentPrice inputs) (in_priceGrowthRate inputs) k) acc =
   acc @ map (spec_point inputs) [k..<nat (maxMonths + 1)]"
proof (induction "nat (maxMonths + 1) - k" arbitrary: k acc)
  case 0
  then have "\<not> int k \<le> maxMonths" by linarith
  moreover from 0 have "[k..<nat (maxMonths + 1)] = []" by simp
  ultimately show ?case by (subst projectionLoop.simps) simp
next
  case (Suc d)
  let ?step = "spec_month_step (in_savingsInterestRate inputs) (in_salaryGrowthRate inputs)"
  let ?st = "(?step ^^ k) (in_initialSavings inputs, in_monthlySavings inputs)"
  let ?st' = "(?step ^^ Suc k) (in_initialSavings inputs, in_monthlySavings inputs)"
  let ?P = "spec_price (in_apartmentPrice inputs) (in_priceGrowthRate inputs)"
  from Suc.hyps(2) have le: "int k \<le> maxMonths" and lt: "k < nat (maxMonths + 1)"
    and d: "d = nat (maxMonths + 1) - Suc k" by linarith+
  have st': "?st' = (fst ?st * (1 + in_savingsInterestRate inputs / 100 / 12) + snd ?st,
                     snd ?st * (1 + in_salaryGrowthRate inputs / 100 / 12))"
    by (simp add: spec_month_step_def split_beta Let_def)
  have price': "?P (Suc k) = ?P k * (1 + in_priceGrowthRate inputs / 100 / 12)"
    by (simp add: spec_price_def)
  have point: "\<lparr>pt_month = int k,
                 pt_apartmentPrice = Math_round (?P k),
                 pt_totalSavings = Math_round (fst ?st),
                 pt_monthlySaving = Math_round (snd ?st),
                 pt_downPaymentTarget = Math_round (?P k * (in_downPaymentPercent inputs / 100)),
                 pt_surplus = Math_round
                   (fst ?st - ?P k * (in_downPaymentPercent inputs / 100))\<rparr>
               = spec_point inputs k"
    by (simp only: spec_point_def Let_def)
  have "projectionLoop inputs maxMonths
     (in_priceGrowthRate inputs / 100 / 12) (in_salaryGrowthRate inputs / 100 / 12)
     (in_savingsInterestRate inputs / 100 / 12) (int k) (fst ?st) (snd ?st) (?P k) acc
     = projectionLoop inputs maxMonths
     (in_priceGrowthRate inputs / 100 / 12) (in_salaryGrowthRate inputs / 100 / 12)
     (in_savingsInterestRate inputs / 100 / 12) (int (Suc k)) (fst ?st') (snd ?st') (?P (Suc k))
     (acc @ [spec_point inputs k])"
    using le
    by (subst projectionLoop.simps)
       (simp only: if_True Let_def point st' price' fst_conv snd_conv, simp add: add.commute)
  also have "\<dots> = (acc @ [spec_point inputs k]) @ map (spec_point inputs) [Suc k..<nat (maxMonths + 1)]"
    by (rule Suc.hyps(1) [OF d])
  also have "\<dots> = acc @ map (spec_point inputs) [k..<nat (maxMonths + 1)]"
    using lt by (simp add: upt_conv_Cons)
  finally show ?case .
qed

lemma generateMonthlyProjection_points:
  "generateMonthlyProjection inputs maxMonths =
     map (spec_point inputs) [0..<nat (maxMonths + 1)]"
  using projectionLoop_points [of inputs maxMonths 0 "[]"]
  by (simp add: generateMonthlyProjection_def spec_price_def Let_def)

lemma generateMonthlyProjection_length:
  "length (generateMonthlyProjection inputs maxMonths) = nat (maxMonths + 1)"
  by (simp add: generateMonthlyProjection_points)

lemma generateMonthlyProjection_nth:
  "k < nat (maxMonths + 1) \<Longrightarrow>
     generateMonthlyProjection inputs maxMonths ! k = spec_point inputs k"
  by (simp add: generateMonthlyProjection_points)

lemma spec_point_0:
  "spec_point inputs 0 =
     \<lparr>pt_month = 0,
      pt_apartmentPrice = Math_round (in_apartmentPrice inputs),
      pt_totalSavings = Math_round (in_initialSavings inputs),
      pt_monthlySaving = Math_round (in_monthlySavings inputs),
      pt_downPaymentTarget =
        Math_round (in_apartmentPrice inputs * (in_downPaymentPercent inputs / 100)),
      pt_surplus = Math_round (in_initialSavings inputs
        - in_apartmentPrice inputs * (in_downPaymentPercent inputs / 100))\<rparr>"
  by (simp add: spec_point_def spec_price_def Let_def)

text \<open>
  Claim C6, as stated: point \<open>0\<close> reproduces the unmodified input apartment price. The loop
  body stores \<^verbatim>\<open>Math.round(currentApartmentPrice)\<close>; an input price of \<open>9999999.5\<close> is stored
  as \<open>10000000\<close>.
\<close>

theorem projection_point_0_counterexample:
  "pt_apartmentPrice
     (generateMonthlyProjection (scenario_inputs\<lparr>in_apartmentPrice := 9999999.5\<rparr>) 120 ! 0)
   \<noteq> in_apartmentPrice (scenario_inputs\<lparr>in_apartmentPrice := 9999999.5\<rparr>)"
  by (simp add: generateMonthlyProjection_nth spec_point_0 Math_round_def)

text \<open>
  Claim C6, amended: for every input record, \<^verbatim>\<open>generateMonthlyProjection(inputs, 120)\<close>
  returns exactly 121 points whose month fields are \<open>0\<close> through \<open>120\<close> in order, and point
  \<open>0\<close> holds the input apartment price, the input monthly contribution and the initial
  savings balance, with no growth applied, each rounded by \<^verbatim>\<open>Math.round\<close> (so each is the
  input itself when the input is a whole number).
\<close>

theorem projection_121_points:
  "length (generateMonthlyProjection inputs 120) = 121
   \<and> map pt_month (generateMonthlyProjection inputs 120) = [0..120]
   \<and> pt_apartmentPrice (generateMonthlyProjection inputs 120 ! 0)
       = Math_round (in_apartmentPrice inputs)
   \<and> pt_monthlySaving (generateMonthlyProjection inputs 120 ! 0)
       = Math_round (in_monthlySavings inputs)
   \<and> pt_totalSavings (generateMonthlyProjection inputs 120 ! 0)
       = Math_round (in_initialSavings inputs)
   \<and> (in_apartmentPrice inputs \<in> \<int> \<longrightarrow>
        pt_apartmentPrice (generateMonthlyProjection inputs 120 ! 0) = in_apartmentPrice inputs)
   \<and> (in_monthlySavings inputs \<in> \<int> \<longrightarrow>
        pt_monthlySaving (generateMonthlyProjection inputs 120 ! 0) = in_monthlySavings inputs)
   \<and> (in_initialSavings inputs \<in> \<int> \<longrightarrow>
        pt_totalSavings (generateMonthlyProjection inputs 120 ! 0) = in_initialSavings inputs)"
proof -
  have months: "map pt_month (generateMonthlyProjection inputs 120) = [0..120]"
  proof -
    have "map pt_month (generateMonthlyProjection inputs 120) = map int [0..<121]"
      by (simp add: generateMonthlyProjection_points spec_point_def Let_def comp_def)
    also have "\<dots> = [int 0..int 121 - 1]" by (rule map_int_upt)
    finally show ?thesis by simp
  qed
  have first: "generateMonthlyProjection inputs 120 ! 0 = spec_point inputs 0"
    by (simp add: generateMonthlyProjection_nth)
  show ?thesis
    unfolding first spec_point_0
    using months by (simp add: generateMonthlyProjection_length Math_round_whole)
qed

theorem projection_121_points_witness:
  "in_apartmentPrice scenario_inputs \<in> \<int>
   \<and> in_monthlySavings scenario_inputs \<in> \<int>
   \<and> in_initialSavings scenario_inputs \<in> \<int>
   \<and> pt_apartmentPrice (generateMonthlyProjection scenario_inputs 120 ! 0) = 10000000
   \<and> pt_monthlySaving (generateMonthlyProjection scenario_inputs 120 ! 0) = 50000
   \<and> pt_totalSavings (generateMonthlyProjection scenario_inputs 120 ! 0) = 0"
  using projection_121_points [of scenario_inputs] by (simp add: scenario_inputs_def)

text \<open>Month \<open>5\<close> of the scenario of the specification, on exact fractions.\<close>

lemma scenario_state_5:
  "(spec_month_step 10 5 ^^ 5) (0, 50000) = (85037850155 / 331776, 812990017201 / 15925248)"
proof -
  have five: "(5::nat) = Suc (Suc (Suc (Suc (Suc 0))))" by simp
  show ?thesis
    unfolding five funpow.simps o_apply id_apply spec_month_step_apply by simp
qed

lemma scenario_price_5: "spec_price 10000000 8 5 = 314010903004 / 30375"
proof -
  have five: "(5::nat) = Suc (Suc (Suc (Suc (Suc 0))))" by simp
  show ?thesis
    unfolding spec_price_def five funpow.simps o_apply id_apply by simp
qed

lemma scenario_point_5:
  "spec_point scenario_inputs 5 =
     \<lparr>pt_month = 5, pt_apartmentPrice = 10337808, pt_totalSavings = 256311,
      pt_monthlySaving = 51050, pt_downPaymentTarget = 2067562, pt_surplus = - 1811250\<rparr>"
  by (simp add: spec_point_def scenario_inputs_def scenario_state_5 scenario_price_5 Let_def
        Math_round_def)

text \<open>
  Claim C7, as stated: the surplus field of a point is its \<^verbatim>\<open>totalSavings\<close> field minus its
  \<^verbatim>\<open>downPaymentTarget\<close> field. The three fields are rounded separately; at month \<open>5\<close> of the
  scenario the balance is \<open>256311.04\<close> and the target \<open>2067561.50\<close>, so the fields are
  \<open>256311\<close> and \<open>2067562\<close>, and the surplus field is \<open>-1811250\<close>, not \<open>-1811251\<close>.
\<close>

theorem surplus_fields_counterexample:
  "pt_surplus (generateMonthlyProjection scenario_inputs 120 ! 5)
   \<noteq> pt_totalSavings (generateMonthlyProjection scenario_inputs 120 ! 5)
     - pt_downPaymentTarget (generateMonthlyProjection scenario_inputs 120 ! 5)"
  by (simp add: generateMonthlyProjection_nth scenario_point_5)

section \<open>The full calculation when the search gives no positive month\<close>

text \<open>
  Claim C8. For every input record on which the down-payment search
  (\<^verbatim>\<open>calculateMonthsToTarget\<close> with \<^verbatim>\<open>targetPercent = downPaymentPercent\<close>) returns \<open>0\<close> or the
  sentinel \<open>-1\<close>, \<^verbatim>\<open>calculateAll\<close> returns a complete result record (the model is a total
  function; no step of the source raises), whose \<^verbatim>\<open>futureApartmentPrice\<close> is the rounded
  current apartment price, not a compounded one. The required down payment is then the
  rounded percentage of the current price, the projected savings are the rounded initial
  savings, and the projection still has its 121 points.
\<close>
theorem search_without_result_keeps_price:
  "calculateMonthsToTarget (in_apartmentPrice inputs * (in_downPaymentPercent inputs / 100))
     (in_apartmentPrice inputs) (in_priceGrowthRate inputs) (in_monthlySavings inputs)
     (in_salaryGrowthRate inputs) (in_downPaymentPercent inputs) (in_initialSavings inputs)
     (in_savingsInterestRate inputs) \<in> {0, - 1} \<Longrightarrow>
   res_futureApartmentPrice (calculateAll inputs) = Math_round (in_apartmentPrice inputs)
   \<and> res_requiredDownPayment (calculateAll inputs) =
       Math_round (in_apartmentPrice inputs * (in_downPaymentPercent inputs / 100))
   \<and> res_monthsToDownPayment (calculateAll inputs) \<in> {0, - 1}
   \<and> res_projectedSavings (calculateAll inputs) = Math_round (in_initialSavings inputs)
   \<and> length (res_monthlyProjection (calculateAll inputs)) = 121"
  by (auto simp: calculateAll_def Let_def generateMonthlyProjection_length)

theorem search_without_result_keeps_price_witness:
  "calculateMonthsToTarget 2000000 10000000 8 50000 5 20 2000000 10 = 0
   \<and> res_futureApartmentPrice
         (calculateAll (scenario_inputs\<lparr>in_initialSavings := 2000000\<rparr>)) = 10000000
   \<and> calculateMonthsToTarget 2000000 10000000 8 0 5 20 0 10 = - 1
   \<and> res_futureApartmentPrice
         (calculateAll (scenario_inputs\<lparr>in_monthlySavings := 0\<rparr>)) = 10000000"
proof -
  have immediate: "calculateMonthsToTarget 2000000 10000000 8 50000 5 20 2000000 10 = 0"
    by (simp add: calculateMonthsToTarget_def)
  have infeasible: "calculateMonthsToTarget 2000000 10000000 8 0 5 20 0 10 = - 1"
    by (simp add: calculateMonthsToTarget_def targetLoop_no_savings)
  show ?thesis
    using immediate infeasible
      search_without_result_keeps_price [of "scenario_inputs\<lparr>in_initialSavings := 2000000\<rparr>"]
      search_without_result_keeps_price [of "scenario_inputs\<lparr>in_monthlySavings := 0\<rparr>"]
    by (simp add: scenario_inputs_def Math_round_def)
qed

section \<open>On the exact reals the second embedding is the first\<close>

lemma exact_sel [simp]:
  "n_add exact = (+)" "n_sub exact = (-)" "n_mul exact = (*)" "n_div exact = (/)"
  "n_ge exact = (\<lambda>a b. b \<le> a)" "n_round exact = Math_round" "n_lit exact = real_of_int"
  by (simp_all add: exact_def)

lemma targetLoop_in_exact:
  "targetLoop_in exact pgm sgm irm tp s c p m = targetLoop pgm sgm irm tp s c p m"
proof (induction "nat (600 - m)" arbitrary: s c p m)
  case 0
  then have "\<not> m < 600" by simp
  then show ?case by (subst targetLoop_in.simps, subst targetLoop.simps) simp
next
  case (Suc n)
  then have lt: "m < 600" and n: "n = nat (600 - (m + 1))" by simp_all
  show ?case
    using lt Suc.hyps(1) [OF n]
    by (subst targetLoop_in.simps, subst targetLoop.simps) (simp add: Let_def)
qed

lemma calculateMonthsToTarget_in_exact:
  "calculateMonthsToTarget_in exact t cp pg ms sg tp init ir =
     calculateMonthsToTarget t cp pg ms sg tp init ir"
  by (simp add: calculateMonthsToTarget_in_def calculateMonthsToTarget_def targetLoop_in_exact)

lemma projectionLoop_in_exact:
  "projectionLoop_in exact inputs M pgm sgm irm month s c p acc =
     projectionLoop inputs M pgm sgm irm month s c p acc"
proof (induction "nat (M + 1 - month)" arbitrary: s c p month acc)
  case 0
  then have "\<not> month \<le> M" by simp
  then show ?case by (subst projectionLoop_in.simps, subst projectionLoop.simps) simp
next
  case (Suc n)
  then have le: "month \<le> M" and n: "n = nat (M + 1 - (month + 1))" by simp_all
  show ?case
    using le Suc.hyps(1) [OF n]
    by (subst projectionLoop_in.simps, subst projectionLoop.simps) (simp add: Let_def)
qed

lemma generateMonthlyProjection_in_exact:
  "generateMonthlyProjection_in exact inputs M = generateMonthlyProjection inputs M"
  by (simp add: generateMonthlyProjection_in_def generateMonthlyProjection_def
        projectionLoop_in_exact)

lemma calculateFuturePrice_in_exact:
  "calculateFuturePrice_in exact Math_pow P r n = calculateFuturePrice P r n"
  by (simp add: calculateFuturePrice_in_def calculateFuturePrice_def)

section \<open>Rounding to a double\<close>

text \<open>The exponent brackets its argument between two powers of two, and is determined by that.\<close>

lemma halvings_bounds: "1 \<le> x \<Longrightarrow> 2 ^ halvings x \<le> x \<and> x < 2 ^ Suc (halvings x)"
proof (induction x rule: halvings.induct)
  case (1 x)
  show ?case
  proof (cases "x < 2")
    case True
    with 1(2) show ?thesis by (subst (1 2) halvings.simps) simp
  next
    case False
    then have "1 \<le> x / 2" by simp
    from 1(1) [OF False this] False show ?thesis
      by (subst (1 2) halvings.simps) simp
  qed
qed

lemma two_powi_Suc: "(2::real) powi (k + 1) = 2 * 2 powi k"
  by (simp add: power_int_add_1)

lemma two_powi_less_cancel: "(2::real) powi m < 2 powi n \<Longrightarrow> m < n"
proof (rule ccontr)
  assume less: "(2::real) powi m < 2 powi n" and "\<not> m < n"
  then have "n \<le> m" by simp
  then have "(2::real) powi n \<le> 2 powi m" by (rule power_int_increasing) simp
  with less show False by simp
qed

lemma doublings_bounds:
  "0 < x \<Longrightarrow> x < 1 \<Longrightarrow>
     2 powi (- int (doublings x)) \<le> x \<and> x < 2 powi (- int (doublings x) + 1)"
proof (induction x rule: doublings.induct)
  case (1 x)
  from 1(2,3) have rec: "doublings x = Suc (doublings (2 * x))"
    by (subst doublings.simps) simp
  have shift: "- int (doublings (2 * x)) = - int (doublings x) + 1"
    by (simp add: rec)
  show ?case
  proof (cases "1 \<le> 2 * x")
    case True
    then have "doublings (2 * x) = 0" by (subst doublings.simps) simp
    then have "doublings x = 1" by (simp add: rec)
    with True 1(3) show ?thesis by simp
  next
    case False
    have n: "\<not> (x \<le> 0 \<or> 1 \<le> x)" using 1(2,3) by simp
    have "0 < 2 * x" "2 * x < 1" using 1(2) False by simp_all
    from 1(1) [OF n this]
    have "2 powi (- int (doublings x) + 1) \<le> 2 * x"
      and "2 * x < 2 powi (- int (doublings x) + 1 + 1)" unfolding shift by simp_all
    then show ?thesis by (simp only: two_powi_Suc) simp
  qed
qed

lemma ilog2_bounds: "0 < x \<Longrightarrow> 2 powi ilog2 x \<le> x \<and> x < 2 powi (ilog2 x + 1)"
proof (cases "1 \<le> x")
  case True
  then show ?thesis using halvings_bounds [of x]
    by (simp add: ilog2_def power_int_add)
next
  case False
  assume "0 < x"
  with False show ?thesis using doublings_bounds [of x] by (simp add: ilog2_def)
qed

lemma ilog2_eqI:
  assumes "2 powi e \<le> x" "x < 2 powi (e + 1)"
  shows "ilog2 x = e"
proof -
  have "(0::real) < 2 powi e" by simp
  with assms(1) have pos: "0 < x" by linarith
  note b = ilog2_bounds [OF pos]
  have "2 powi e < (2::real) powi (ilog2 x + 1)" using assms(1) b by linarith
  then have "e < ilog2 x + 1" by (rule two_powi_less_cancel)
  moreover have "(2::real) powi ilog2 x < 2 powi (e + 1)" using assms(2) b by linarith
  then have "ilog2 x < e + 1" by (rule two_powi_less_cancel)
  ultimately show ?thesis by linarith
qed

text \<open>
  Rounding to the even neighbour is monotone and fixes the integers; rounding to a double
  keeps the sign and is monotone on the positive reals.
\<close>

lemma rne_of_int [simp]: "rne (real_of_int n) = n"
  by (simp add: rne_def)

lemma rne_bounds: "\<lfloor>x\<rfloor> \<le> rne x" "rne x \<le> \<lfloor>x\<rfloor> + 1"
  by (simp_all add: rne_def Let_def)

lemma rne_mono: "x \<le> y \<Longrightarrow> rne x \<le> rne y"
proof -
  assume le: "x \<le> y"
  then have fl: "\<lfloor>x\<rfloor> \<le> \<lfloor>y\<rfloor>" by (rule floor_mono)
  show ?thesis
  proof (cases "\<lfloor>x\<rfloor> = \<lfloor>y\<rfloor>")
    case True
    then have "x - real_of_int \<lfloor>x\<rfloor> \<le> y - real_of_int \<lfloor>y\<rfloor>" using le by simp
    then show ?thesis unfolding rne_def Let_def True by auto
  next
    case False
    with fl have "\<lfloor>x\<rfloor> + 1 \<le> \<lfloor>y\<rfloor>" by simp
    with rne_bounds(2) [of x] rne_bounds(1) [of y] show ?thesis by linarith
  qed
qed

lemma quantum_pos: "0 < quantum x"
  by (simp add: quantum_def)

lemma round_real_nonneg: "0 \<le> x \<Longrightarrow> 0 \<le> round_real x"
proof -
  assume "0 \<le> x"
  then have "0 \<le> x / quantum x" using quantum_pos [of x] by simp
  then have "rne 0 \<le> rne (x / quantum x)" by (rule rne_mono)
  then have "0 \<le> rne (x / quantum x)" using rne_of_int [of 0] by simp
  then show ?thesis using quantum_pos [of x] by (simp add: round_real_def)
qed

lemma round_real_nonpos: "x \<le> 0 \<Longrightarrow> round_real x \<le> 0"
proof -
  assume "x \<le> 0"
  then have "x / quantum x \<le> 0" using quantum_pos [of x] by (simp add: divide_nonpos_pos)
  then have "rne (x / quantum x) \<le> rne 0" by (rule rne_mono)
  then have "rne (x / quantum x) \<le> 0" using rne_of_int [of 0] by simp
  then show ?thesis using quantum_pos [of x]
    by (simp add: round_real_def mult_nonpos_nonneg)
qed

lemma ilog2_mono: "0 < x \<Longrightarrow> x \<le> y \<Longrightarrow> ilog2 x \<le> ilog2 y"
proof -
  assume x: "0 < x" and le: "x \<le> y"
  then have y: "0 < y" by simp
  have "2 powi ilog2 x \<le> x" using ilog2_bounds [OF x] by simp
  also have "x \<le> y" by (rule le)
  also have "y < 2 powi (ilog2 y + 1)" using ilog2_bounds [OF y] by simp
  finally have "ilog2 x < ilog2 y + 1" by (rule two_powi_less_cancel)
  then show ?thesis by simp
qed

lemma m53: "real_of_int (2 ^ 53) * 2 powi (e - 52) = 2 powi (e + 1)"
proof -
  have "(2::real) powi (53 + (e - 52)) = 2 powi 53 * 2 powi (e - 52)"
    by (rule power_int_add) simp
  moreover have "53 + (e - 52) = e + 1" by simp
  moreover have "real_of_int (2 ^ 53) = (2::real) powi 53" by simp
  ultimately show ?thesis by (simp only:)
qed

lemma m52: "real_of_int (2 ^ 52) * 2 powi (e - 52) = 2 powi e"
proof -
  have "(2::real) powi (52 + (e - 52)) = 2 powi 52 * 2 powi (e - 52)"
    by (rule power_int_add) simp
  moreover have "52 + (e - 52) = e" by simp
  moreover have "real_of_int (2 ^ 52) = (2::real) powi 52" by simp
  ultimately show ?thesis by (simp only:)
qed

lemma q53: "2 powi (e + 1) / 2 powi (e - 52) = real_of_int (2 ^ 53)"
  unfolding m53 [symmetric] by simp

lemma q52: "2 powi e / 2 powi (e - 52) = real_of_int (2 ^ 52)"
  unfolding m52 [of e, symmetric] by simp

lemma round_real_mono_pos:
  assumes x: "0 < x" and le: "x \<le> y"
  shows "round_real x \<le> round_real y"
proof -
  have y: "0 < y" using x le by simp
  define ex where "ex = max (ilog2 x) (- 1022)"
  define ey where "ey = max (ilog2 y) (- 1022)"
  define qx :: real where "qx = 2 powi (ex - 52)"
  define qy :: real where "qy = 2 powi (ey - 52)"
  have qx_pos: "0 < qx" and qy_pos: "0 < qy" by (simp_all add: qx_def qy_def)
  have rx: "round_real x = real_of_int (rne (x / qx)) * qx"
    using x by (simp add: round_real_def quantum_def ex_def qx_def)
  have ry: "round_real y = real_of_int (rne (y / qy)) * qy"
    using y by (simp add: round_real_def quantum_def ey_def qy_def)
  have exy: "ex \<le> ey" using ilog2_mono [OF x le] by (simp add: ex_def ey_def)
  show ?thesis
  proof (cases "ex = ey")
    case True
    then have q: "qx = qy" by (simp add: qx_def qy_def)
    have "x / qy \<le> y / qy" using le qy_pos by (simp add: divide_right_mono)
    then have "rne (x / qy) \<le> rne (y / qy)" by (rule rne_mono)
    then show ?thesis unfolding rx ry q using qy_pos by (simp add: mult_right_mono)
  next
    case False
    with exy have lt: "ex < ey" by simp
    then have ey: "ey = ilog2 y" unfolding ex_def ey_def by linarith
    have "x < 2 powi (ilog2 x + 1)" using ilog2_bounds [OF x] by simp
    also have "\<dots> \<le> 2 powi (ex + 1)" by (rule power_int_increasing) (simp_all add: ex_def)
    finally have "x / qx \<le> 2 powi (ex + 1) / qx"
      using qx_pos by (simp add: divide_right_mono)
    then have "x / qx \<le> real_of_int (2 ^ 53)" unfolding qx_def q53 .
    then have "rne (x / qx) \<le> rne (real_of_int (2 ^ 53))" by (rule rne_mono)
    then have "rne (x / qx) \<le> 2 ^ 53" by (simp only: rne_of_int)
    then have "real_of_int (rne (x / qx)) \<le> real_of_int (2 ^ 53)" by (simp only: of_int_le_iff)
    then have "round_real x \<le> real_of_int (2 ^ 53) * qx"
      unfolding rx using qx_pos by (intro mult_right_mono) simp_all
    also have "\<dots> = 2 powi (ex + 1)" unfolding qx_def by (rule m53)
    also have "\<dots> \<le> 2 powi ey" using lt by (intro power_int_increasing) simp_all
    finally have upper: "round_real x \<le> 2 powi ey" .
    have "2 powi ey \<le> y" using ilog2_bounds [OF y] by (simp add: ey)
    then have "2 powi ey / qy \<le> y / qy" using qy_pos by (simp add: divide_right_mono)
    then have "real_of_int (2 ^ 52) \<le> y / qy" unfolding qy_def q52 .
    then have "rne (real_of_int (2 ^ 52)) \<le> rne (y / qy)" by (rule rne_mono)
    then have "2 ^ 52 \<le> rne (y / qy)" by (simp only: rne_of_int)
    then have "real_of_int (2 ^ 52) \<le> real_of_int (rne (y / qy))" by (simp only: of_int_le_iff)
    then have "real_of_int (2 ^ 52) * qy \<le> round_real y"
      unfolding ry using qy_pos by (intro mult_right_mono) simp_all
    then have "2 powi ey \<le> round_real y" unfolding qy_def m52 .
    with upper show ?thesis by simp
  qed
qed

lemmas fl_eval = round_double_def round_real_def quantum_def ilog2_def halvings.simps
  doublings.simps rne_def Let_def fl_lit_def

lemma ieee_sel [simp]:
  "n_add ieee = fl_add" "n_sub ieee = fl_sub" "n_mul ieee = fl_mul" "n_div ieee = fl_div"
  "n_ge ieee = fl_ge" "n_round ieee = fl_round" "n_lit ieee = fl_lit"
  by (simp_all add: ieee_def)

lemma fl_lit_small [simp]:
  "fl_lit 0 = Finite 0" "fl_lit 1 = Finite 1" "fl_lit 12 = Finite 12" "fl_lit 100 = Finite 100"
  by (simp_all add: fl_eval)

lemma round_double_0 [simp]: "round_double 0 = Finite 0"
  by (simp add: round_double_def round_real_def)

lemma round_real_1: "round_real 1 = 1"
  by (simp add: fl_eval)

lemma round_double_gt_0: "fl_gt (round_double u) (Finite 0) \<longleftrightarrow> 0 < round_real u"
proof -
  have "(0::real) < 2 powi 1024" by simp
  then show ?thesis by (auto simp: round_double_def Let_def)
qed

lemma round_double_at_least:
  "l \<le> round_real x \<Longrightarrow> - (2 powi 1024) < l \<Longrightarrow> at_least l (round_double x)"
  by (auto simp: round_double_def Let_def)

lemma is_double_Finite: "is_double (Finite p) \<Longrightarrow> round_real p = p"
  by (auto simp: round_double_def Let_def split: if_splits)

lemma inert_mul: "inert s \<Longrightarrow> inert (fl_mul s a)"
  by (cases a) (auto simp: inert_def)

lemma inert_add: "inert s \<Longrightarrow> inert c \<Longrightarrow> inert (fl_add s c)"
  by (auto simp: inert_def)

lemma inert_not_ge: "inert s \<Longrightarrow> fl_gt t (Finite 0) \<Longrightarrow> \<not> fl_ge s t"
  by (cases t) (auto simp: inert_def)

lemma fl_gt_0_at_least: "fl_gt a (Finite 0) \<Longrightarrow> at_least 0 a"
  by (cases a) auto

lemma fl_div_nonneg: "at_least 0 a \<Longrightarrow> 0 < y \<Longrightarrow> at_least 0 (fl_div a (Finite y))"
proof (cases a)
  case (Finite x)
  assume "at_least 0 a" "0 < y"
  with Finite have "0 \<le> x / y" by simp
  then have "0 \<le> round_real (x / y)" by (rule round_real_nonneg)
  then have "at_least 0 (round_double (x / y))" by (rule round_double_at_least) simp
  with Finite \<open>0 < y\<close> show ?thesis by simp
qed auto

lemma fl_add_one: "at_least 0 c \<Longrightarrow> at_least 1 (fl_add (Finite 1) c)"
proof (cases c)
  case (Finite x)
  assume "at_least 0 c"
  with Finite have "1 \<le> 1 + x" by simp
  then have "round_real 1 \<le> round_real (1 + x)" by (intro round_real_mono_pos) simp_all
  then have "at_least 1 (round_double (1 + x))"
    unfolding round_real_1 by (rule round_double_at_least) simp
  with Finite show ?thesis by simp
qed auto

lemma growth_factor:
  assumes "fl_gt priceGrowthRate (Finite 0)"
  shows "at_least 1
           (fl_add (Finite 1) (fl_div (fl_div priceGrowthRate (Finite 100)) (Finite 12)))"
  by (intro fl_add_one fl_div_nonneg fl_gt_0_at_least assms) simp_all

lemma price_step:
  assumes p: "0 < p" "round_real p = p" and g: "at_least 1 g" and a: "at_least p a"
  shows "at_least p (fl_mul a g)"
proof (cases a)
  case (Finite y)
  with a have y: "p \<le> y" by simp
  show ?thesis
  proof (cases g)
    case (Finite z)
    with g have "1 \<le> z" by simp
    with y p(1) have "p \<le> y * z"
      by (metis less_eq_real_def mult.right_neutral mult_mono order_less_le_trans zero_le_one)
    with p(1) have "round_real p \<le> round_real (y * z)" by (intro round_real_mono_pos)
    then have "at_least p (round_double (y * z))"
      unfolding p(2) using p(1) by (intro round_double_at_least) simp_all
    with Finite \<open>a = Finite y\<close> show ?thesis by simp
  next
    case PlusInfinity
    with \<open>a = Finite y\<close> y p(1) show ?thesis by simp
  qed (use g in auto)
next
  case PlusInfinity
  with g show ?thesis by (cases g) auto
qed (use a in auto)

lemma target_positive:
  assumes p: "0 < p" and f: "at_least 0 f"
    and H: "fl_gt (fl_mul (Finite p) f) (Finite 0)" and a: "at_least p a"
  shows "fl_gt (fl_mul a f) (Finite 0)"
proof (cases f)
  case (Finite z)
  with H have r: "0 < round_real (p * z)" by (simp add: round_double_gt_0)
  have pz: "0 < p * z"
  proof (rule ccontr)
    assume "\<not> 0 < p * z"
    then have "round_real (p * z) \<le> 0" by (intro round_real_nonpos) simp
    with r show False by simp
  qed
  with p have z: "0 < z" by (simp add: zero_less_mult_iff)
  show ?thesis
  proof (cases a)
    case (Finite y)
    with a have "p \<le> y" by simp
    with z have "p * z \<le> y * z" by (simp add: mult_right_mono)
    with pz have "round_real (p * z) \<le> round_real (y * z)" by (intro round_real_mono_pos)
    with r have "0 < round_real (y * z)" by simp
    with Finite \<open>f = Finite z\<close> show ?thesis by (simp add: round_double_gt_0)
  next
    case PlusInfinity
    with \<open>f = Finite z\<close> z show ?thesis by simp
  qed (use a in auto)
next
  case PlusInfinity
  with a p show ?thesis by (cases a) auto
qed (use f in auto)

lemma targetLoop_in_never:
  assumes step: "\<And>x. I x \<Longrightarrow> I (fl_mul x (fl_add (Finite 1) pgm))"
    and tgt: "\<And>x. I x \<Longrightarrow> fl_gt (fl_mul x (fl_div tp (Finite 100))) (Finite 0)"
  shows "I price \<Longrightarrow> inert s \<Longrightarrow> inert c \<Longrightarrow>
           targetLoop_in ieee pgm sgm irm tp s c price m = - 1"
proof (induction "nat (600 - m)" arbitrary: price s c m)
  case 0
  then have "\<not> m < 600" by simp
  then show ?case by (subst targetLoop_in.simps) simp
next
  case (Suc n)
  let ?s = "fl_add (fl_mul s (fl_add (Finite 1) irm)) c"
  let ?c = "fl_mul c (fl_add (Finite 1) sgm)"
  let ?p = "fl_mul price (fl_add (Finite 1) pgm)"
  from Suc.hyps(2) have lt: "m < 600" and n: "n = nat (600 - (m + 1))" by simp_all
  have I: "I ?p" using Suc.prems(1) by (rule step)
  have s: "inert ?s" using Suc.prems(2,3) by (intro inert_add inert_mul)
  have c: "inert ?c" using Suc.prems(3) by (rule inert_mul)
  have miss: "\<not> fl_ge ?s (fl_mul ?p (fl_div tp (Finite 100)))"
    using s tgt [OF I] by (rule inert_not_ge)
  have "targetLoop_in ieee pgm sgm irm tp s c price m =
        targetLoop_in ieee pgm sgm irm tp ?s ?c ?p (m + 1)"
    using lt miss by (subst targetLoop_in.simps) (simp add: Let_def)
  also have "\<dots> = - 1" using n I s c by (rule Suc.hyps(1))
  finally show ?case .
qed

lemma smallest_double: "round_double (2 powi (- 1074)) = Finite (2 powi (- 1074))"
proof -
  have "ilog2 \<bar>2 powi (- 1074)\<bar> = - 1074"
    by (rule ilog2_eqI) simp_all
  then show ?thesis
    by (simp add: round_double_def round_real_def quantum_def rne_def Let_def)
qed

lemma smallest_double_target:
  "fl_mul (Finite (2 powi (- 1074))) (fl_div (Finite 20) (Finite 100)) = Finite 0"
proof -
  have fifth: "fl_div (Finite 20) (Finite 100) = Finite (3602879701896397 / 18014398509481984)"
    by (simp add: fl_eval)
  have "ilog2 \<bar>2 powi (- 1074) * (3602879701896397 / 18014398509481984)\<bar> = - 1077"
    by (rule ilog2_eqI) simp_all
  then show ?thesis
    unfolding fifth by (simp add: round_double_def round_real_def quantum_def rne_def Let_def)
qed

text \<open>
  Claim C4, as stated: with a positive price, a percent in \<open>(0, 100]\<close>, positive price growth
  and no savings the search returns \<open>-1\<close>. For the smallest positive double as the price,
  \<open>2 ^ -1074\<close> (printed \<open>5e-324\<close>), the target \<open>price * (20/100)\<close> rounds to \<open>0\<close>, the test of
  month \<open>0\<close> is \<open>0 >= 0\<close>, and the search returns \<open>0\<close>.
\<close>

theorem no_savings_underflow_counterexample:
  "is_double (Finite (2 powi (- 1074))) \<and> fl_gt (Finite (2 powi (- 1074))) (Finite 0)
   \<and> fl_gt (Finite 20) (Finite 0) \<and> fl_ge (Finite 100) (Finite 20)
   \<and> fl_gt (Finite 8) (Finite 0)
   \<and> calculateMonthsToTarget_in ieee (Finite 0) (Finite (2 powi (- 1074))) (Finite 8)
         (Finite 0) (Finite 5) (Finite 20) (Finite 0) (Finite 10) = 0"
  using smallest_double smallest_double_target
  by (simp add: calculateMonthsToTarget_in_def Let_def)

text \<open>
  Claim C4, amended: for every positive current price and every target percent in
  \<open>(0, 100]\<close>, with \<^verbatim>\<open>monthlySavings = 0\<close>, \<^verbatim>\<open>initialSavings = 0\<close> and \<^verbatim>\<open>priceGrowthRate > 0\<close>,
  \<^verbatim>\<open>calculateMonthsToTarget\<close> returns exactly \<open>-1\<close>, provided the target of month \<open>0\<close>,
  \<open>currentPrice * (targetPercent/100)\<close>, is greater than zero as the doubles compute it;
  whatever the target amount, the salary growth rate and the interest rate (infinities and
  NaN included). The price is a double (\<open>is_double\<close>) or \<open>+Infinity\<close>.
\<close>

theorem no_savings_infeasible_ieee:
  assumes "is_double currentPrice"
    and "fl_gt currentPrice (Finite 0)"
    and "fl_gt targetPercent (Finite 0)" and "fl_ge (Finite 100) targetPercent"
    and "fl_gt priceGrowthRate (Finite 0)"
    and "fl_gt (fl_mul currentPrice (fl_div targetPercent (Finite 100))) (Finite 0)"
  shows "calculateMonthsToTarget_in ieee targetAmount currentPrice priceGrowthRate (Finite 0)
           salaryGrowthRate targetPercent (Finite 0) savingsInterestRate = - 1"
proof -
  let ?g = "fl_add (Finite 1) (fl_div (fl_div priceGrowthRate (Finite 100)) (Finite 12))"
  let ?f = "fl_div targetPercent (Finite 100)"
  have g: "at_least 1 ?g" using assms(5) by (rule growth_factor)
  have f: "at_least 0 ?f" using assms(3) by (intro fl_div_nonneg fl_gt_0_at_least) simp_all
  have first: "\<not> fl_ge (Finite 0) (fl_mul currentPrice ?f)"
    using assms(6) by (intro inert_not_ge) (simp_all add: inert_def)
  have loop: "targetLoop_in ieee (fl_div (fl_div priceGrowthRate (Finite 100)) (Finite 12))
           (fl_div (fl_div salaryGrowthRate (Finite 100)) (Finite 12))
           (fl_div (fl_div savingsInterestRate (Finite 100)) (Finite 12))
           targetPercent (Finite 0) (Finite 0) currentPrice 0 = - 1"
  proof (cases currentPrice)
    case (Finite p)
    with assms(1,2) have p: "0 < p" "round_real p = p" by (simp_all add: is_double_Finite)
    show ?thesis
    proof (rule targetLoop_in_never [where I = "at_least p"])
      show "at_least p currentPrice" using Finite by simp
    qed (use p g f assms(6) Finite in \<open>auto intro: price_step target_positive simp: inert_def\<close>)
  next
    case PlusInfinity
    have f': "fl_gt (fl_mul PlusInfinity ?f) (Finite 0)" using assms(6) PlusInfinity by simp
    show ?thesis
    proof (rule targetLoop_in_never [where I = "\<lambda>x. x = PlusInfinity"])
      show "currentPrice = PlusInfinity" by (rule PlusInfinity)
      show "fl_mul x ?g = PlusInfinity" if "x = PlusInfinity" for x
        using g that by (cases ?g) auto
    qed (use f' in \<open>auto simp: inert_def\<close>)
  qed (use assms(2) in auto)
  show ?thesis
    using first loop by (simp add: calculateMonthsToTarget_in_def)
qed

theorem no_savings_infeasible_ieee_witness:
  "is_double (Finite 10000000) \<and> fl_gt (Finite 10000000) (Finite 0)
   \<and> fl_gt (Finite 20) (Finite 0) \<and> fl_ge (Finite 100) (Finite 20)
   \<and> fl_gt (Finite 8) (Finite 0)
   \<and> fl_gt (fl_mul (Finite 10000000) (fl_div (Finite 20) (Finite 100))) (Finite 0)
   \<and> calculateMonthsToTarget_in ieee (Finite 2000000) (Finite 10000000) (Finite 8) (Finite 0)
         (Finite 5) (Finite 20) (Finite 0) (Finite 10) = - 1"
proof -
  have d: "is_double (Finite 10000000)" by (simp add: fl_eval)
  have t: "fl_gt (fl_mul (Finite 10000000) (fl_div (Finite 20) (Finite 100))) (Finite 0)"
    by (simp add: fl_eval)
  show ?thesis
    using d t no_savings_infeasible_ieee [of "Finite 10000000" "Finite 20" "Finite 8"
            "Finite 2000000" "Finite 5" "Finite 10"]
    by simp
qed

section \<open>The search for the month that meets the target\<close>

text \<open>
  The loop entered at counter \<open>k\<close> with the state that \<open>k\<close> months of the recurrences
  produce returns the first month after \<open>k\<close>, up to \<open>600\<close>, that meets its target; in every
  arithmetic.
\<close>

lemma targetLoop_in_find:
  "k \<le> 600 \<Longrightarrow>
   targetLoop_in A (monthly_rate_in A pg) (monthly_rate_in A sg) (monthly_rate_in A ir) tp
     (fst ((spec_month_step_in A ir sg ^^ k) (init, ms)))
     (snd ((spec_month_step_in A ir sg ^^ k) (init, ms)))
     (spec_price_in A cp pg k) (int k) =
   (case List.find (spec_target_met_in A cp pg ms sg tp init ir) [Suc k..<601] of
      Some m \<Rightarrow> int m | None \<Rightarrow> - 1)"
proof (induction "600 - k" arbitrary: k)
  case 0
  then have "k = 600" by simp
  then show ?case by (subst targetLoop_in.simps) simp
next
  case (Suc n)
  let ?st = "(spec_month_step_in A ir sg ^^ k) (init, ms)"
  let ?st' = "(spec_month_step_in A ir sg ^^ Suc k) (init, ms)"
  from Suc.hyps(2) have lt: "k < 600" and n: "n = 600 - Suc k" and le: "Suc k \<le> 600"
    by simp_all
  have st': "?st' = (n_add A (n_mul A (fst ?st) (n_add A (n_lit A 1) (monthly_rate_in A ir)))
                       (snd ?st),
                     n_mul A (snd ?st) (n_add A (n_lit A 1) (monthly_rate_in A sg)))"
    by (simp add: spec_month_step_in_def growth_in_def split_beta Let_def)
  have price': "spec_price_in A cp pg (Suc k) =
                n_mul A (spec_price_in A cp pg k) (n_add A (n_lit A 1) (monthly_rate_in A pg))"
    by (simp add: spec_price_in_def growth_in_def)
  have met: "spec_target_met_in A cp pg ms sg tp init ir (Suc k) \<longleftrightarrow>
             n_ge A (fst ?st')
               (n_mul A (spec_price_in A cp pg (Suc k)) (n_div A tp (n_lit A 100)))"
    by (simp only: spec_target_met_in_def spec_balance_in_def spec_target_in_def)
  have upt: "[Suc k..<601] = Suc k # [Suc (Suc k)..<601]"
    using lt by (simp add: upt_conv_Cons)
  have IH: "targetLoop_in A (monthly_rate_in A pg) (monthly_rate_in A sg) (monthly_rate_in A ir)
              tp (fst ?st') (snd ?st') (spec_price_in A cp pg (Suc k)) (int (Suc k)) =
            (case List.find (spec_target_met_in A cp pg ms sg tp init ir) [Suc (Suc k)..<601] of
               Some m \<Rightarrow> int m | None \<Rightarrow> - 1)"
    using Suc.hyps(1) [OF n le] by simp
  have step: "targetLoop_in A (monthly_rate_in A pg) (monthly_rate_in A sg)
                (monthly_rate_in A ir) tp (fst ?st) (snd ?st) (spec_price_in A cp pg k) (int k) =
        (if n_ge A (fst ?st')
              (n_mul A (spec_price_in A cp pg (Suc k)) (n_div A tp (n_lit A 100)))
         then int (Suc k)
         else targetLoop_in A (monthly_rate_in A pg) (monthly_rate_in A sg)
                (monthly_rate_in A ir) tp
                (fst ?st') (snd ?st') (spec_price_in A cp pg (Suc k)) (int (Suc k)))"
    using lt
    by (subst targetLoop_in.simps)
       (simp only: st' price' Let_def fst_conv snd_conv, simp add: add.commute)
  show ?case
    unfolding step IH upt find.simps met by simp
qed

text \<open>
  Claim C1, as stated: the search returns \<open>0\<close> if \<open>initialSavings >= currentPrice *
  targetPercent/100\<close>. The code forms the fraction first, \<open>currentPrice * (targetPercent /
  100)\<close>, and on doubles the two differ: for a price of \<open>3000000\<close> and \<open>55\<close> percent the
  product taken first gives \<open>1650000\<close>, the code's target is \<open>1650000.0000000002\<close>, and with
  initial savings of \<open>1650000\<close> (and a contribution of \<open>50000\<close>) the search returns \<open>1\<close>.
\<close>

theorem monthsToTarget_product_first_counterexample:
  "fl_ge (Finite 1650000) (fl_div (fl_mul (Finite 3000000) (Finite 55)) (Finite 100))
   \<and> calculateMonthsToTarget_in ieee (Finite 1650000) (Finite 3000000) (Finite 0)
         (Finite 50000) (Finite 0) (Finite 55) (Finite 1650000) (Finite 0) = 1"
  by (simp add: calculateMonthsToTarget_in_def targetLoop_in.simps fl_eval)

text \<open>
  Claim C1, amended: for every call of \<^verbatim>\<open>calculateMonthsToTarget\<close>, in the arithmetic of the
  host: if the initial savings are at least \<open>currentPrice * (targetPercent/100)\<close>, the
  fraction being formed first, it returns \<open>0\<close>; otherwise it returns the first month \<open>m\<close>
  with \<open>1 \<le> m \<le> 600\<close> at which the balance after \<open>m\<close> months (each month: the balance
  times \<open>1 + savingsInterestRate/100/12\<close>, plus the contribution, the contribution then
  times \<open>1 + salaryGrowthRate/100/12\<close>) is at least the price after \<open>m\<close> months of growth
  times \<open>targetPercent/100\<close>, meeting exactly counting as success; and \<open>-1\<close> when no such
  month exists. The statement holds for every arithmetic, each operation of the
  recurrences being the operation of that arithmetic, in the order of the code.
\<close>

theorem monthsToTarget_in_first_month:
  "calculateMonthsToTarget_in A targetAmount currentPrice priceGrowthRate monthlySavings
     salaryGrowthRate targetPercent initialSavings savingsInterestRate =
   spec_monthsToTarget_in A currentPrice priceGrowthRate monthlySavings salaryGrowthRate
     targetPercent initialSavings savingsInterestRate"
  using targetLoop_in_find [of 0 A priceGrowthRate salaryGrowthRate savingsInterestRate
          targetPercent initialSavings monthlySavings currentPrice]
  by (simp add: calculateMonthsToTarget_in_def spec_monthsToTarget_in_def spec_price_in_def
        spec_target_in_def monthly_rate_in_def Let_def)

text \<open>
  An instance on doubles: a price of \<open>1\<close>, a contribution of \<open>0.1\<close>, no growth and no
  interest. Ten additions of the double \<open>0.1\<close> give \<open>0.9999999999999999\<close>, so the target is
  met at month \<open>11\<close>.
\<close>

theorem monthsToTarget_in_first_month_witness:
  "calculateMonthsToTarget_in ieee (Finite 1) (Finite 1) (Finite 0)
     (fl_div (Finite 1) (Finite 10)) (Finite 0) (Finite 100) (Finite 0) (Finite 0) = 11
   \<and> spec_monthsToTarget_in ieee (Finite 1) (Finite 0) (fl_div (Finite 1) (Finite 10))
       (Finite 0) (Finite 100) (Finite 0) (Finite 0) = 11"
  using monthsToTarget_in_first_month [of ieee "Finite 1" "Finite 1" "Finite 0"
          "fl_div (Finite 1) (Finite 10)" "Finite 0" "Finite 100" "Finite 0" "Finite 0"]
  by (simp add: calculateMonthsToTarget_in_def targetLoop_in.simps fl_eval)

section \<open>The surplus of a projection point\<close>

lemma projectionLoop_in_points:
  "projectionLoop_in A inputs maxMonths
     (monthly_rate_in A (in_priceGrowthRate inputs))
     (monthly_rate_in A (in_salaryGrowthRate inputs))
     (monthly_rate_in A (in_savingsInterestRate inputs)) (int k)
     (fst ((spec_month_step_in A (in_savingsInterestRate inputs) (in_salaryGrowthRate inputs)
             ^^ k) (in_initialSavings inputs, in_monthlySavings inputs)))
     (snd ((spec_month_step_in A (in_savingsInterestRate inputs) (in_salaryGrowthRate inputs)
             ^^ k) (in_initialSavings inputs, in_monthlySavings inputs)))
     (spec_price_in A (in_apartmentPrice inputs) (in_priceGrowthRate inputs) k) acc =
   acc @ map (spec_point_in A inputs) [k..<nat (maxMonths + 1)]"
proof (induction "nat (maxMonths + 1) - k" arbitrary: k acc)
  case 0
  then have "\<not> int k \<le> maxMonths" by linarith
  moreover from 0 have "[k..<nat (maxMonths + 1)] = []" by simp
  ultimately show ?case by (subst projectionLoop_in.simps) simp
next
  case (Suc d)
  let ?step = "spec_month_step_in A (in_savingsInterestRate inputs) (in_salaryGrowthRate inputs)"
  let ?st = "(?step ^^ k) (in_initialSavings inputs, in_monthlySavings inputs)"
  let ?st' = "(?step ^^ Suc k) (in_initialSavings inputs, in_monthlySavings inputs)"
  let ?P = "spec_price_in A (in_apartmentPrice inputs) (in_priceGrowthRate inputs)"
  from Suc.hyps(2) have le: "int k \<le> maxMonths" and lt: "k < nat (maxMonths + 1)"
    and d: "d = nat (maxMonths + 1) - Suc k" by linarith+
  have st': "?st' =
      (n_add A (n_mul A (fst ?st)
                 (n_add A (n_lit A 1) (monthly_rate_in A (in_savingsInterestRate inputs))))
         (snd ?st),
       n_mul A (snd ?st) (n_add A (n_lit A 1) (monthly_rate_in A (in_salaryGrowthRate inputs))))"
    by (simp add: spec_month_step_in_def growth_in_def split_beta Let_def)
  have price': "?P (Suc k) =
      n_mul A (?P k) (n_add A (n_lit A 1) (monthly_rate_in A (in_priceGrowthRate inputs)))"
    by (simp add: spec_price_in_def growth_in_def)
  have point: "\<lparr>pt_month = int k,
                 pt_apartmentPrice = n_round A (?P k),
                 pt_totalSavings = n_round A (fst ?st),
                 pt_monthlySaving = n_round A (snd ?st),
                 pt_downPaymentTarget = n_round A
                   (n_mul A (?P k) (n_div A (in_downPaymentPercent inputs) (n_lit A 100))),
                 pt_surplus = n_round A (n_sub A (fst ?st)
                   (n_mul A (?P k) (n_div A (in_downPaymentPercent inputs) (n_lit A 100))))\<rparr>
               = spec_point_in A inputs k"
    by (simp only: spec_point_in_def spec_balance_in_def spec_target_in_def Let_def)
  have "projectionLoop_in A inputs maxMonths
     (monthly_rate_in A (in_priceGrowthRate inputs))
     (monthly_rate_in A (in_salaryGrowthRate inputs))
     (monthly_rate_in A (in_savingsInterestRate inputs)) (int k) (fst ?st) (snd ?st) (?P k) acc
     = projectionLoop_in A inputs maxMonths
     (monthly_rate_in A (in_priceGrowthRate inputs))
     (monthly_rate_in A (in_salaryGrowthRate inputs))
     (monthly_rate_in A (in_savingsInterestRate inputs)) (int (Suc k))
     (fst ?st') (snd ?st') (?P (Suc k)) (acc @ [spec_point_in A inputs k])"
    using le
    by (subst projectionLoop_in.simps)
       (simp only: if_True Let_def point st' price' fst_conv snd_conv, simp add: add.commute)
  also have "\<dots> = (acc @ [spec_point_in A inputs k])
                     @ map (spec_point_in A inputs) [Suc k..<nat (maxMonths + 1)]"
    by (rule Suc.hyps(1) [OF d])
  also have "\<dots> = acc @ map (spec_point_in A inputs) [k..<nat (maxMonths + 1)]"
    using lt by (simp add: upt_conv_Cons)
  finally show ?case .
qed

lemma generateMonthlyProjection_in_points:
  "generateMonthlyProjection_in A inputs maxMonths =
     map (spec_point_in A inputs) [0..<nat (maxMonths + 1)]"
  using projectionLoop_in_points [of A inputs maxMonths 0 "[]"]
  by (simp add: generateMonthlyProjection_in_def spec_price_in_def monthly_rate_in_def Let_def)

lemma generateMonthlyProjection_in_length:
  "length (generateMonthlyProjection_in A inputs maxMonths) = nat (maxMonths + 1)"
  by (simp add: generateMonthlyProjection_in_points)

lemma generateMonthlyProjection_in_nth:
  "k < nat (maxMonths + 1) \<Longrightarrow>
     generateMonthlyProjection_in A inputs maxMonths ! k = spec_point_in A inputs k"
  by (simp add: generateMonthlyProjection_in_points)

lemma fl_lit_scenario [simp]:
  "fl_lit 10000000 = Finite 10000000" "fl_lit 8 = Finite 8" "fl_lit 150000 = Finite 150000"
  "fl_lit 5 = Finite 5" "fl_lit 50000 = Finite 50000" "fl_lit 10 = Finite 10"
  "fl_lit 18 = Finite 18" "fl_lit 20 = Finite 20"
  by (simp_all add: fl_eval)

lemma scenario_balance_5_ieee:
  "(spec_month_step_in ieee (Finite 10) (Finite 5) ^^ 5) (Finite 0, Finite 50000) =
     (Finite (4403390062426137 / 17179869184), Finite (877038909749543 / 17179869184))"
proof -
  have five: "(5::nat) = Suc (Suc (Suc (Suc (Suc 0))))" by simp
  show ?thesis
    unfolding five funpow.simps o_apply id_apply
    by (simp add: spec_month_step_in_def growth_in_def monthly_rate_in_def fl_eval)
qed

lemma scenario_price_5_ieee:
  "spec_price_in ieee (Finite 10000000) (Finite 8) 5 = Finite (1387517035997539 / 134217728)"
proof -
  have five: "(5::nat) = Suc (Suc (Suc (Suc (Suc 0))))" by simp
  show ?thesis
    unfolding spec_price_in_def five funpow.simps o_apply id_apply
    by (simp add: growth_in_def monthly_rate_in_def fl_eval)
qed

lemma scenario_target_5_ieee:
  "spec_target_in ieee (Finite (1387517035997539 / 134217728)) (Finite 20) =
     Finite (4440054515192125 / 2147483648)"
  by (simp add: spec_target_in_def fl_eval)

text \<open>
  Claim C7, amended: for every input record and every point of the sequence returned by
  \<^verbatim>\<open>generateMonthlyProjection\<close>, the surplus field of the point of month \<open>k\<close> is
  \<^verbatim>\<open>Math.round\<close> of the difference, computed by the host, of the unrounded balance and the
  unrounded down-payment target of that month, while the \<^verbatim>\<open>totalSavings\<close> and
  \<^verbatim>\<open>downPaymentTarget\<close> fields are that balance and that target rounded separately (so the
  surplus field need not be the difference of the two fields). The value may be negative:
  it is at month \<open>0\<close> of the scenario, on doubles. The statement holds for every
  arithmetic.
\<close>

theorem surplus_rounded_in:
  "k < length (generateMonthlyProjection_in A inputs maxMonths) \<Longrightarrow>
     pt_surplus (generateMonthlyProjection_in A inputs maxMonths ! k) =
       n_round A (n_sub A
         (spec_balance_in A (in_monthlySavings inputs) (in_salaryGrowthRate inputs)
            (in_initialSavings inputs) (in_savingsInterestRate inputs) k)
         (spec_target_in A
            (spec_price_in A (in_apartmentPrice inputs) (in_priceGrowthRate inputs) k)
            (in_downPaymentPercent inputs)))
     \<and> pt_totalSavings (generateMonthlyProjection_in A inputs maxMonths ! k) =
       n_round A
         (spec_balance_in A (in_monthlySavings inputs) (in_salaryGrowthRate inputs)
            (in_initialSavings inputs) (in_savingsInterestRate inputs) k)
     \<and> pt_downPaymentTarget (generateMonthlyProjection_in A inputs maxMonths ! k) =
       n_round A
         (spec_target_in A
            (spec_price_in A (in_apartmentPrice inputs) (in_priceGrowthRate inputs) k)
            (in_downPaymentPercent inputs))
     \<and> fl_gt (Finite 0)
           (pt_surplus (generateMonthlyProjection_in ieee (scenario_inputs_in ieee) 120 ! 0))"
proof -
  assume "k < length (generateMonthlyProjection_in A inputs maxMonths)"
  then have nth: "generateMonthlyProjection_in A inputs maxMonths ! k = spec_point_in A inputs k"
    by (simp add: generateMonthlyProjection_in_length generateMonthlyProjection_in_nth)
  have "generateMonthlyProjection_in ieee (scenario_inputs_in ieee) 120 ! 0 =
          spec_point_in ieee (scenario_inputs_in ieee) 0"
    by (simp add: generateMonthlyProjection_in_nth)
  then have neg: "fl_gt (Finite 0)
           (pt_surplus (generateMonthlyProjection_in ieee (scenario_inputs_in ieee) 120 ! 0))"
    by (simp add: spec_point_in_def scenario_inputs_in_def spec_balance_in_def
          spec_price_in_def spec_target_in_def fl_sub_def Let_def)
       (simp add: fl_eval)
  show ?thesis
    unfolding nth using neg by (simp add: spec_point_in_def Let_def)
qed

text \<open>Month \<open>5\<close> of the scenario on doubles has the fields of the counterexample above.\<close>

theorem surplus_rounded_in_witness:
  "5 < length (generateMonthlyProjection_in ieee (scenario_inputs_in ieee) 120)
   \<and> pt_surplus (generateMonthlyProjection_in ieee (scenario_inputs_in ieee) 120 ! 5)
       = Finite (- 1811250)
   \<and> pt_totalSavings (generateMonthlyProjection_in ieee (scenario_inputs_in ieee) 120 ! 5)
       = Finite 256311
   \<and> pt_downPaymentTarget (generateMonthlyProjection_in ieee (scenario_inputs_in ieee) 120 ! 5)
       = Finite 2067562"
proof -
  have len: "5 < length (generateMonthlyProjection_in ieee (scenario_inputs_in ieee) 120)"
    by (simp add: generateMonthlyProjection_in_length)
  have sub: "fl_sub (Finite (4403390062426137 / 17179869184))
               (Finite (4440054515192125 / 2147483648))
             = Finite (- 1944815378694429 / 1073741824)"
    by (simp add: fl_sub_def fl_eval)
  show ?thesis
    using len surplus_rounded_in [OF len]
    by (simp add: scenario_inputs_in_def spec_balance_in_def scenario_balance_5_ieee
          scenario_price_5_ieee scenario_target_5_ieee sub)
qed

section \<open>The future price on doubles\<close>

lemma round_double_ge:
  "round_real a \<le> round_real b \<Longrightarrow> fl_ge (round_double b) (round_double a)"
proof -
  have "- (2 powi 1024) < (2::real) powi 1024" by simp
  then show "round_real a \<le> round_real b \<Longrightarrow> fl_ge (round_double b) (round_double a)"
    by (auto simp: round_double_def Let_def)
qed

lemma fl_mul_mono:
  assumes P: "fl_gt P (Finite 0)" and u: "at_least 1 u" and v: "at_least 1 v"
    and uv: "fl_ge v u"
  shows "fl_ge (fl_mul P v) (fl_mul P u)"
proof (cases P)
  case (Finite p)
  with P have p: "0 < p" by simp
  show ?thesis
  proof (cases u)
    case u': (Finite x)
    with u have x: "1 \<le> x" by simp
    show ?thesis
    proof (cases v)
      case (Finite y)
      with uv u' have "x \<le> y" by simp
      with p have "p * x \<le> p * y" by simp
      moreover have "0 < p * x" using p x by simp
      ultimately have "round_real (p * x) \<le> round_real (p * y)" by (intro round_real_mono_pos)
      then show ?thesis unfolding \<open>P = Finite p\<close> u' Finite by (simp add: round_double_ge)
    next
      case PlusInfinity
      have "round_double (p * x) \<noteq> NaN" by (simp add: round_double_def Let_def)
      then show ?thesis unfolding \<open>P = Finite p\<close> u' PlusInfinity using p
        by (cases "round_double (p * x)") auto
    qed (use v in auto)
  next
    case PlusInfinity
    with uv v have "v = PlusInfinity" by (cases v) auto
    with PlusInfinity \<open>P = Finite p\<close> p show ?thesis by simp
  qed (use u in auto)
next
  case PlusInfinity
  have "fl_mul PlusInfinity w = PlusInfinity" if "at_least 1 w" for w
    using that by (cases w) auto
  with u v PlusInfinity show ?thesis by simp
qed (use P in auto)

lemma pow_rounded_monotone: "pow_monotone pow_rounded"
  unfolding pow_monotone_def
proof (intro allI impI)
  fix b n m
  assume b: "at_least 1 b" and n: "(0::int) \<le> n" and nm: "n \<le> m"
  show "at_least 1 (pow_rounded b n) \<and> fl_ge (pow_rounded b m) (pow_rounded b n)"
  proof (cases b)
    case (Finite x)
    with b have x: "1 \<le> x" by simp
    then have one: "1 \<le> x powi n" using n by simp
    then have "round_real 1 \<le> round_real (x powi n)" by (intro round_real_mono_pos) simp_all
    then have 1: "at_least 1 (round_double (x powi n))"
      unfolding round_real_1 by (rule round_double_at_least) simp
    have "x powi n \<le> x powi m" using nm x by (rule power_int_increasing)
    moreover have "0 < x powi n" using one by simp
    ultimately have "round_real (x powi n) \<le> round_real (x powi m)"
      by (intro round_real_mono_pos)
    then have "fl_ge (round_double (x powi m)) (round_double (x powi n))"
      by (rule round_double_ge)
    with 1 x Finite show ?thesis by simp
  next
    case PlusInfinity
    with n nm show ?thesis by simp
  qed (use b in auto)
qed

lemma tiny_rate:
  "fl_add (Finite 1)
     (fl_div (fl_div (fl_div (Finite 1) (Finite 100000000000000)) (Finite 100)) (Finite 12))
   = Finite 1"
  by (simp add: fl_eval)




end
